theory Spec2Isabelle
  imports Complex_Main
begin

section \<open>Common values\<close>

text \<open>
  The controller under verification is the React component of
  \<^verbatim>\<open>frontend/src/components/learning/LearningSession.tsx\<close>, the quiz generator of
  \<^verbatim>\<open>frontend/src/services/aiQuizGenerator.ts\<close> it calls, and the session creation of
  the second component kept in \<^verbatim>\<open>LearningSessionSimple.tsx\<close> (lines 441 to 1743).

  A component is a record of its \<^verbatim>\<open>useState\<close> cells; a handler is a function from the
  cells it closes over to the cells after all of its setters have been applied.
  A remote call is awaited by the handler, so its outcome is an argument of the model:
  \<open>Inl e\<close> is a rejected promise (or a throw), \<open>Inr v\<close> a resolved one.
  \<^verbatim>\<open>console.error\<close> and \<^verbatim>\<open>console.warn\<close> append a line to the cell \<open>console\<close>, which
  exists in the model only; so does the cell \<open>browser\<close>, which records what the response
  interceptor of \<^verbatim>\<open>services/api.ts\<close> does to the browser.

  JavaScript numbers: the counters and identifiers are integers (\<open>int\<close>, \<open>nat\<close> for
  clock readings), the rates are exact rationals (\<open>rat\<close>); rounding of IEEE doubles is
  not modelled. A quotient is only ever stated below for a positive denominator
  (HOL's \<open>x / 0 = 0\<close> is not JavaScript's).
\<close>

text \<open>
  What a handler can catch: the rejection of a request by axios, with the status of the
  response when there is one; \<^verbatim>\<open>new Error(message)\<close>; the \<^verbatim>\<open>TypeError\<close> of reading a property
  of \<^verbatim>\<open>undefined\<close>.
\<close>

datatype error = AxiosError "nat option" | Error string | TypeError

text \<open>
  The response interceptor (api.ts, lines 26 to 35) sees every rejected request before the
  handler that awaits it: for a response with status 401 it removes the token from
  \<^verbatim>\<open>localStorage\<close> and assigns \<^verbatim>\<open>'/login'\<close> to \<^verbatim>\<open>window.location.href\<close>, then rejects with the
  same error. Assigning the location replaces the document, and with it the component
  and its cells, once the running handler has returned.
\<close>

datatype browser_effect = RemoveItem string | Navigate string

definition intercept :: "error \<Rightarrow> browser_effect list" where
  "intercept err =
     (if err = AxiosError (Some 401) then [RemoveItem ''token'', Navigate ''/login''] else [])"

fun navigates :: "browser_effect \<Rightarrow> bool" where
  "navigates (RemoveItem k) = False"
| "navigates (Navigate url) = True"

text \<open>
  Template literals print a non-negative integer in decimal: \<^verbatim>\<open>`${i}`\<close>.
\<close>

definition digit_char :: "nat \<Rightarrow> char" where
  "digit_char d = ''0123456789'' ! d"

function show_nat :: "nat \<Rightarrow> string" where
  "show_nat n =
     (if n < 10 then [digit_char n]
      else show_nat (n div 10) @ [digit_char (n mod 10)])"
  by pat_completeness auto
termination
  by (relation "measure (\<lambda>n. n)") auto

declare show_nat.simps [simp del]

text \<open>
  \<^verbatim>\<open>Array.prototype.findIndex\<close>: the index of the first element that satisfies the
  predicate, \<open>-1\<close> when there is none.
\<close>

fun findIndex :: "('a \<Rightarrow> bool) \<Rightarrow> 'a list \<Rightarrow> int" where
  "findIndex P [] = - 1"
| "findIndex P (x # xs) =
     (if P x then 0
      else (let r = findIndex P xs in if r < 0 then - 1 else r + 1))"

section \<open>The quiz generator (aiQuizGenerator.ts)\<close>

record options4 =
  opt_A :: string
  opt_B :: string
  opt_C :: string
  opt_D :: string

record ai_question =
  aq_id :: string
  aq_question :: "string option"
  aq_options :: "options4 option"
  aq_correct_answer :: string
  aq_explanation :: string
  aq_subject :: "string option"
  aq_difficulty :: "rat option"

record QuizGenerationRequest =
  req_subject :: string
  req_topic :: string
  req_difficulty :: rat
  numQuestions :: int

text \<open>
  What the generator and the component read from their environment:
  \<open>gen_now i\<close> is \<^verbatim>\<open>Date.now()\<close> and \<open>gen_random i\<close> is \<^verbatim>\<open>Math.random()\<close> in iteration
  \<open>i\<close> of the generator's loop, \<open>session_now\<close> is \<^verbatim>\<open>Date.now()\<close> and \<open>session_iso\<close> is
  \<^verbatim>\<open>new Date().toISOString()\<close> when a session record is built.
\<close>

record env =
  gen_now :: "nat \<Rightarrow> nat"
  gen_random :: "nat \<Rightarrow> rat"
  session_now :: nat
  session_iso :: string

text \<open>
  \<^verbatim>\<open>questionTemplates[subject]\<close> and \<^verbatim>\<open>optionSets[subject]\<close> look the subject up in an object
  literal with four keys of its own. A subject that is none of them but names a property
  that every object inherits from \<^verbatim>\<open>Object.prototype\<close> finds that property: a function, or
  the prototype itself for \<^verbatim>\<open>__proto__\<close>. It is truthy, so \<^verbatim>\<open>||\<close> does not replace it by the
  default list, and it has no element at any index \<^verbatim>\<open>n % length\<close>: the question text and
  the options are then \<^verbatim>\<open>undefined\<close>, \<open>None\<close> in the model. The field of the question record is
  optional for that reason.
\<close>

definition object_prototype_properties :: "string list" where
  "object_prototype_properties =
     [''constructor'', ''__defineGetter__'', ''__defineSetter__'', ''hasOwnProperty'',
      ''__lookupGetter__'', ''__lookupSetter__'', ''isPrototypeOf'', ''propertyIsEnumerable'',
      ''toString'', ''valueOf'', ''__proto__'', ''toLocaleString'']"

text \<open>The object literals, by their own keys.\<close>

definition questionTemplates :: "string \<Rightarrow> string \<Rightarrow> string list option" where
  "questionTemplates subject topic =
     (if subject = ''Mathematics'' then
        Some [''What is the result of this '' @ topic @ '' problem?'',
              ''Which formula is used for '' @ topic @ ''?'',
              ''How do you solve this '' @ topic @ '' equation?'']
      else if subject = ''Science'' then
        Some [''What is the main principle of '' @ topic @ ''?'',
              ''Which process describes '' @ topic @ ''?'',
              ''What happens during '' @ topic @ ''?'']
      else if subject = ''History'' then
        Some [''When did the '' @ topic @ '' occur?'',
              ''Who was involved in '' @ topic @ ''?'',
              ''What was the cause of '' @ topic @ ''?'']
      else if subject = ''English'' then
        Some [''What is the meaning of this '' @ topic @ '' concept?'',
              ''Which technique is used in '' @ topic @ ''?'',
              ''How does '' @ topic @ '' affect the text?'']
      else None)"

definition generateQuestionText :: "string \<Rightarrow> string \<Rightarrow> nat \<Rightarrow> string option" where
  "generateQuestionText subject topic questionNumber =
     (case questionTemplates subject topic of
        Some templates \<Rightarrow> Some (templates ! (questionNumber mod length templates))
      | None \<Rightarrow>
          if subject \<in> set object_prototype_properties then None
          else
            (let templates =
                   [''What is important about '' @ topic @ ''?'',
                    ''How does '' @ topic @ '' work?'',
                    ''What are the key features of '' @ topic @ ''?'']
             in Some (templates ! (questionNumber mod length templates))))"

definition optionSets :: "string \<Rightarrow> options4 list option" where
  "optionSets subject =
     (if subject = ''Mathematics'' then
        Some [\<lparr>opt_A = ''x = 5'', opt_B = ''x = 10'', opt_C = ''x = 15'', opt_D = ''x = 20''\<rparr>,
              \<lparr>opt_A = ''Pythagorean theorem'', opt_B = ''Quadratic formula'',
               opt_C = ''Chain rule'', opt_D = ''Distance formula''\<rparr>]
      else if subject = ''Science'' then
        Some [\<lparr>opt_A = ''Photosynthesis'', opt_B = ''Respiration'',
               opt_C = ''Digestion'', opt_D = ''Circulation''\<rparr>,
              \<lparr>opt_A = ''Newton's First Law'', opt_B = ''Newton's Second Law'',
               opt_C = ''Newton's Third Law'', opt_D = ''Law of Gravity''\<rparr>]
      else if subject = ''History'' then
        Some [\<lparr>opt_A = ''1776'', opt_B = ''1789'', opt_C = ''1812'', opt_D = ''1865''\<rparr>,
              \<lparr>opt_A = ''George Washington'', opt_B = ''Thomas Jefferson'',
               opt_C = ''Abraham Lincoln'', opt_D = ''Benjamin Franklin''\<rparr>]
      else if subject = ''English'' then
        Some [\<lparr>opt_A = ''Metaphor'', opt_B = ''Simile'',
               opt_C = ''Alliteration'', opt_D = ''Personification''\<rparr>,
              \<lparr>opt_A = ''First person'', opt_B = ''Second person'',
               opt_C = ''Third person limited'', opt_D = ''Third person omniscient''\<rparr>]
      else None)"

definition generateOptions :: "string \<Rightarrow> string \<Rightarrow> nat \<Rightarrow> options4 option" where
  "generateOptions subject topic questionNumber =
     (case optionSets subject of
        Some sets \<Rightarrow> Some (sets ! (questionNumber mod length sets))
      | None \<Rightarrow>
          if subject \<in> set object_prototype_properties then None
          else
            (let sets =
                   [\<lparr>opt_A = ''Option A'', opt_B = ''Option B'',
                     opt_C = ''Option C'', opt_D = ''Option D''\<rparr>]
             in Some (sets ! (questionNumber mod length sets))))"

text \<open>
  \<^verbatim>\<open>['A', 'B', 'C', 'D'][Math.floor(Math.random() * 4)]\<close>. \<^verbatim>\<open>Math.random()\<close> returns
  \<open>r\<close> with \<open>0 \<le> r < 1\<close>, so the index is one of 0 to 3.
\<close>

definition random_letter :: "rat \<Rightarrow> string" where
  "random_letter r = [''A'', ''B'', ''C'', ''D''] ! nat \<lfloor>r * 4\<rfloor>"

definition new_question :: "env \<Rightarrow> QuizGenerationRequest \<Rightarrow> nat \<Rightarrow> ai_question" where
  "new_question e request i =
     \<lparr>aq_id = ''q_'' @ show_nat (gen_now e i) @ ''_'' @ show_nat i,
      aq_question = generateQuestionText (req_subject request) (req_topic request) (i + 1),
      aq_options = generateOptions (req_subject request) (req_topic request) (i + 1),
      aq_correct_answer = random_letter (gen_random e i),
      aq_explanation =
        ''This question tests your understanding of '' @ req_topic request @ '' in ''
          @ req_subject request @ ''.'',
      aq_subject = Some (req_subject request),
      aq_difficulty = Some (req_difficulty request)\<rparr>"

text \<open>The \<^verbatim>\<open>for\<close> loop of \<^verbatim>\<open>generateQuiz\<close>, from \<open>i\<close> with the questions pushed so far.\<close>

function generateQuiz_loop ::
  "env \<Rightarrow> QuizGenerationRequest \<Rightarrow> nat \<Rightarrow> ai_question list \<Rightarrow> ai_question list" where
  "generateQuiz_loop e request i questions =
     (if int i < numQuestions request
      then generateQuiz_loop e request (i + 1) (questions @ [new_question e request i])
      else questions)"
  by pat_completeness auto
termination
  by (relation "measure (\<lambda>(e, request, i, questions). nat (numQuestions request - int i))") auto

declare generateQuiz_loop.simps [simp del]

definition getFallbackQuestions :: "QuizGenerationRequest \<Rightarrow> ai_question list" where
  "getFallbackQuestions request =
     [\<lparr>aq_id = ''fallback_1'',
       aq_question = Some (''What is a fundamental concept in '' @ req_topic request @ ''?''),
       aq_options = Some \<lparr>opt_A = ''Basic principle'', opt_B = ''Advanced theory'',
                          opt_C = ''Complex formula'', opt_D = ''Simple rule''\<rparr>,
       aq_correct_answer = ''A'',
       aq_explanation =
         ''This is a basic question about '' @ req_topic request @ '' in ''
           @ req_subject request @ ''.'',
       aq_subject = Some (req_subject request),
       aq_difficulty = Some (req_difficulty request)\<rparr>]"

text \<open>
  \<^verbatim>\<open>generateQuiz\<close>: the body of the \<^verbatim>\<open>try\<close> block, and the \<^verbatim>\<open>catch\<close> that turns a
  failure of the body into the fallback questions. The promise it returns is never
  rejected, so its model returns the list itself.
\<close>

definition generateQuiz_try :: "env \<Rightarrow> QuizGenerationRequest \<Rightarrow> error + ai_question list" where
  "generateQuiz_try e request = Inr (generateQuiz_loop e request 0 [])"

definition generateQuiz_catch :: "QuizGenerationRequest \<Rightarrow> error + ai_question list \<Rightarrow> ai_question list" where
  "generateQuiz_catch request r =
     (case r of Inr questions \<Rightarrow> questions | Inl err \<Rightarrow> getFallbackQuestions request)"

definition generateQuiz :: "env \<Rightarrow> QuizGenerationRequest \<Rightarrow> ai_question list" where
  "generateQuiz e request = generateQuiz_catch request (generateQuiz_try e request)"

section \<open>The component (LearningSession.tsx)\<close>

record Question =
  q_id :: string
  q_question :: "string option"
  q_options :: "string list"
  q_correct_answer :: string
  q_explanation :: string
  q_difficulty :: rat

record LearningSessionData =
  session_id :: int
  session_type :: string
  subject_area :: string
  topic :: string
  status :: string
  questions_attempted :: int
  questions_correct :: int
  accuracy_rate :: rat
  duration_minutes :: int
  started_at :: string

record new_session_data =
  nsd_subject_area :: string
  nsd_topic :: string
  nsd_session_type :: string

record component =
  sessions :: "LearningSessionData list"
  activeSession :: "LearningSessionData option"
  currentQuestion :: "Question option"
  currentQuestions :: "Question list"
  selectedAnswer :: string
  showResults :: bool
  isCorrect :: bool
  explanation :: string
  loading :: bool
  error_message :: string
  successMessage :: string
  createDialogOpen :: bool
  newSessionData :: new_session_data
  console :: "string list"
  browser :: "browser_effect list"

text \<open>The cells as \<^verbatim>\<open>useState\<close> initialises them.\<close>

definition initial_component :: component where
  "initial_component =
     \<lparr>sessions = [], activeSession = None, currentQuestion = None, currentQuestions = [],
      selectedAnswer = [], showResults = False, isCorrect = False, explanation = [],
      loading = False, error_message = [], successMessage = [],
      createDialogOpen = False,
      newSessionData =
        \<lparr>nsd_subject_area = [], nsd_topic = [], nsd_session_type = ''practice''\<rparr>,
      console = [], browser = []\<rparr>"

text \<open>
  The conversion of a generated question to the component's \<^verbatim>\<open>Question\<close>, the callback of
  \<^verbatim>\<open>aiQuestions.map\<close> (lines 235 to 242): \<^verbatim>\<open>q.options.A\<close> throws a \<^verbatim>\<open>TypeError\<close> when the
  options are \<^verbatim>\<open>undefined\<close>; \<^verbatim>\<open>q.difficulty || 0.5\<close> replaces a missing or zero difficulty.
\<close>

definition toQuestion :: "ai_question \<Rightarrow> error + Question" where
  "toQuestion q =
     (case aq_options q of
        None \<Rightarrow> Inl TypeError
      | Some options \<Rightarrow>
          Inr \<lparr>q_id = aq_id q,
               q_question = aq_question q,
               q_options = [opt_A options, opt_B options, opt_C options, opt_D options],
               q_correct_answer = aq_correct_answer q,
               q_explanation = aq_explanation q,
               q_difficulty =
                 (case aq_difficulty q of
                    None \<Rightarrow> 1 / 2
                  | Some d \<Rightarrow> if d = 0 then 1 / 2 else d)\<rparr>)"

text \<open>\<^verbatim>\<open>aiQuestions.map(q => ...)\<close>: the converted questions, or the first error thrown.\<close>

fun toQuestions :: "ai_question list \<Rightarrow> error + Question list" where
  "toQuestions [] = Inr []"
| "toQuestions (q # qs) =
     (case toQuestion q of
        Inl err \<Rightarrow> Inl err
      | Inr x \<Rightarrow>
          (case toQuestions qs of
             Inl err \<Rightarrow> Inl err
           | Inr xs \<Rightarrow> Inr (x # xs)))"

text \<open>\<^verbatim>\<open>setSessions(prev => [newSession, ...prev])\<close>, the only way a session enters the list.\<close>

definition addSession :: "'s \<Rightarrow> 's list \<Rightarrow> 's list" where
  "addSession newSession prev = newSession # prev"

text \<open>
  \<^verbatim>\<open>setSessions(prev => prev.map(s => s.id === updated.id ? updated : s))\<close>, as
  \<^verbatim>\<open>handleAnswerSubmit\<close>, \<^verbatim>\<open>completeSession\<close> and \<^verbatim>\<open>pauseSession\<close> write it.
\<close>

definition replaceSession ::
  "int \<Rightarrow> LearningSessionData \<Rightarrow> LearningSessionData list \<Rightarrow> LearningSessionData list" where
  "replaceSession i updatedSession prev =
     map (\<lambda>session. if session_id session = i then updatedSession else session) prev"

text \<open>
  \<^verbatim>\<open>createNewSession\<close> (lines 220 to 280); \<open>created\<close> is the outcome of
  \<^verbatim>\<open>learningAPI.createSession\<close>, the only awaited call that can be rejected. The conversion
  of the generated questions comes before that call; an error it throws reaches the same
  \<^verbatim>\<open>catch\<close>.
\<close>

definition createNewSession :: "env \<Rightarrow> error + unit \<Rightarrow> component \<Rightarrow> component" where
  "createNewSession e created st =
     (let st1 = st\<lparr>loading := True\<rparr>;
          quizRequest =
            \<lparr>req_subject = nsd_subject_area (newSessionData st),
             req_topic = nsd_topic (newSessionData st),
             req_difficulty = 1 / 2,
             numQuestions = 4\<rparr>;
          aiQuestions = generateQuiz e quizRequest
      in case toQuestions aiQuestions of
           Inl err \<Rightarrow>
             st1\<lparr>error_message := ''Failed to create AI-powered learning session'',
                 loading := False\<rparr>
         | Inr questions \<Rightarrow>
             (case created of
                Inl err \<Rightarrow>
                  st1\<lparr>browser := browser st1 @ intercept err,
                      error_message := ''Failed to create AI-powered learning session'',
                      loading := False\<rparr>
              | Inr u \<Rightarrow>
                  (let newSession =
                         \<lparr>session_id = int (session_now e),
                          session_type = nsd_session_type (newSessionData st),
                          subject_area = nsd_subject_area (newSessionData st),
                          topic = nsd_topic (newSessionData st),
                          status = ''active'',
                          questions_attempted = 0,
                          questions_correct = 0,
                          accuracy_rate = 0,
                          duration_minutes = 0,
                          started_at = session_iso e\<rparr>;
                       st2 = st1\<lparr>sessions := addSession newSession (sessions st1),
                                 activeSession := Some newSession,
                                 currentQuestions := questions\<rparr>;
                       st3 = (if 0 < length questions
                              then st2\<lparr>currentQuestion := Some (questions ! 0)\<rparr>
                              else st2)
                   in st3\<lparr>createDialogOpen := False,
                          newSessionData :=
                            \<lparr>nsd_subject_area = [], nsd_topic = [],
                             nsd_session_type = ''practice''\<rparr>,
                          successMessage :=
                            ''AI-powered quiz created for '' @ nsd_topic (newSessionData st) @ ''!'',
                          loading := False\<rparr>)))"

text \<open>
  \<^verbatim>\<open>handleAnswerSubmit\<close> (lines 282 to 316); \<open>logged\<close> is the outcome of
  \<^verbatim>\<open>learningAPI.logInteraction\<close>. The guard reads the current question, the selected
  answer and the active session, and nothing else. A rejection has passed the response
  interceptor before the \<^verbatim>\<open>catch\<close> of the handler writes its line to the console.
\<close>

definition handleAnswerSubmit :: "error + unit \<Rightarrow> component \<Rightarrow> component" where
  "handleAnswerSubmit logged st =
     (case currentQuestion st of
        None \<Rightarrow> st
      | Some cq \<Rightarrow>
          if selectedAnswer st = [] then st
          else
            (case activeSession st of
               None \<Rightarrow> st
             | Some act \<Rightarrow>
                 (let correct = (selectedAnswer st = q_correct_answer cq);
                      updatedSession =
                        act\<lparr>questions_attempted := questions_attempted act + 1,
                            questions_correct :=
                              questions_correct act + (if correct then 1 else 0),
                            accuracy_rate :=
                              of_int (questions_correct act + (if correct then 1 else 0))
                                / of_int (questions_attempted act + 1) * 100\<rparr>;
                      st1 = st\<lparr>isCorrect := correct,
                               showResults := True,
                               explanation := q_explanation cq,
                               activeSession := Some updatedSession,
                               sessions :=
                                 replaceSession (session_id act) updatedSession (sessions st)\<rparr>
                  in case logged of
                       Inl err \<Rightarrow>
                         st1\<lparr>browser := browser st1 @ intercept err,
                             console := console st1 @ [''Error logging interaction:'']\<rparr>
                     | Inr u \<Rightarrow> st1)))"

text \<open>\<^verbatim>\<open>handleNextQuestion\<close> (lines 318 to 335).\<close>

definition handleNextQuestion :: "component \<Rightarrow> component" where
  "handleNextQuestion st =
     (if activeSession st = None \<or> length (currentQuestions st) = 0 then st
      else
        (let currentIndex =
               findIndex (\<lambda>q. Some (q_id q) = map_option q_id (currentQuestion st))
                 (currentQuestions st)
         in if currentIndex < int (length (currentQuestions st)) - 1
            then st\<lparr>currentQuestion := Some (currentQuestions st ! nat (currentIndex + 1)),
                    selectedAnswer := [],
                    showResults := False,
                    explanation := []\<rparr>
            else st\<lparr>currentQuestion := None,
                    activeSession := None,
                    currentQuestions := [],
                    successMessage := ''Session completed! Great job!''\<rparr>))"

text \<open>
  \<^verbatim>\<open>startSession\<close> (lines 337 to 376), the handler of the Resume and Continue buttons:
  it generates a new quiz for the session it is given. \<^verbatim>\<open>questions[0]\<close> of an empty
  list is \<^verbatim>\<open>undefined\<close>, which every guard reads as no question. An error thrown by the
  conversion of the questions is caught: it is reported and no cell of the session is set.
\<close>

definition startSession :: "env \<Rightarrow> LearningSessionData \<Rightarrow> component \<Rightarrow> component" where
  "startSession e session st =
     (let quizRequest =
            \<lparr>req_subject = subject_area session,
             req_topic = topic session,
             req_difficulty = 1 / 2,
             numQuestions = 4\<rparr>;
          aiQuestions = generateQuiz e quizRequest
      in case toQuestions aiQuestions of
           Inl err \<Rightarrow>
             st\<lparr>console := console st @ [''Error generating questions for session:''],
                error_message := ''Failed to generate quiz questions'',
                loading := False\<rparr>
         | Inr questions \<Rightarrow>
             st\<lparr>currentQuestions := questions,
                activeSession := Some session,
                currentQuestion := (case questions of [] \<Rightarrow> None | q # qs \<Rightarrow> Some q),
                selectedAnswer := [],
                showResults := False,
                explanation := [],
                loading := False\<rparr>)"

text \<open>\<^verbatim>\<open>completeSession\<close> (lines 378 to 393); no control of the view calls it.\<close>

definition completeSession :: "component \<Rightarrow> component" where
  "completeSession st =
     (case activeSession st of
        None \<Rightarrow> st
      | Some act \<Rightarrow>
          (let updatedSession = act\<lparr>status := ''completed''\<rparr>
           in st\<lparr>sessions := replaceSession (session_id updatedSession) updatedSession (sessions st),
                 activeSession := None,
                 currentQuestion := None,
                 successMessage := ''Learning session completed successfully!''\<rparr>))"

text \<open>\<^verbatim>\<open>pauseSession\<close> (lines 395 to 410).\<close>

definition pauseSession :: "component \<Rightarrow> component" where
  "pauseSession st =
     (case activeSession st of
        None \<Rightarrow> st
      | Some act \<Rightarrow>
          (let updatedSession = act\<lparr>status := ''paused''\<rparr>
           in st\<lparr>sessions := replaceSession (session_id updatedSession) updatedSession (sessions st),
                 activeSession := None,
                 currentQuestion := None,
                 successMessage := ''Session paused successfully!''\<rparr>))"

subsection \<open>The view: which control is offered in which state\<close>

text \<open>
  A handler runs only when the view rendered from the current cells offers its control.
  The session view is rendered when there is an active session and a current question;
  it shows the question card (the radio group, Submit Answer, Pause Session) while
  \<open>showResults\<close> is false and the result card (Next Question or Complete Session)
  otherwise. The list of sessions, with a Resume or Continue button for every session
  that is active or paused, is rendered when the session view is not. The view is that
  of the cells; a run below may go on after the interceptor has assigned a new location,
  where the document would be replaced, so what holds after every run holds after every
  run of the displayed document.
\<close>

datatype event =
    SelectAnswer string
  | SubmitAnswer "error + unit"
  | NextQuestion
  | PauseSession
  | StartSession env LearningSessionData

definition session_view :: "component \<Rightarrow> bool" where
  "session_view st = (activeSession st \<noteq> None \<and> currentQuestion st \<noteq> None)"

fun offered :: "component \<Rightarrow> event \<Rightarrow> bool" where
  "offered st (SelectAnswer v) =
     (session_view st \<and> \<not> showResults st
      \<and> v \<in> set (case currentQuestion st of None \<Rightarrow> [] | Some cq \<Rightarrow> q_options cq))"
| "offered st (SubmitAnswer logged) =
     (session_view st \<and> \<not> showResults st \<and> selectedAnswer st \<noteq> [])"
| "offered st NextQuestion = (session_view st \<and> showResults st)"
| "offered st PauseSession = (session_view st \<and> \<not> showResults st)"
| "offered st (StartSession e session) =
     (\<not> session_view st \<and> session \<in> set (sessions st)
      \<and> (status session = ''active'' \<or> status session = ''paused''))"

fun fire :: "event \<Rightarrow> component \<Rightarrow> component" where
  "fire (SelectAnswer v) st = st\<lparr>selectedAnswer := v\<rparr>"
| "fire (SubmitAnswer logged) st = handleAnswerSubmit logged st"
| "fire NextQuestion st = handleNextQuestion st"
| "fire PauseSession st = pauseSession st"
| "fire (StartSession e session) st = startSession e session st"

text \<open>A run of events; \<open>None\<close> when an event is not offered where it stands.\<close>

fun run :: "component \<Rightarrow> event list \<Rightarrow> component option" where
  "run st [] = Some st"
| "run st (ev # evs) = (if offered st ev then run (fire ev st) evs else None)"

text \<open>The events of answering a quiz: choosing an option, submitting, advancing.\<close>

fun answering :: "event \<Rightarrow> bool" where
  "answering (SelectAnswer v) = True"
| "answering (SubmitAnswer logged) = True"
| "answering NextQuestion = True"
| "answering PauseSession = False"
| "answering (StartSession e session) = False"

text \<open>
  The counters of the session in progress against its list of questions:
  \<open>0 \<le> questions_correct \<le> questions_attempted \<le> length(Questions)\<close>.
\<close>

definition counters_ok :: "component \<Rightarrow> bool" where
  "counters_ok st =
     (case activeSession st of
        None \<Rightarrow> True
      | Some act \<Rightarrow>
          0 \<le> questions_correct act
          \<and> questions_correct act \<le> questions_attempted act
          \<and> questions_attempted act \<le> int (length (currentQuestions st)))"

section \<open>Session creation of the second component (LearningSessionSimple.tsx, from line 441)\<close>

text \<open>
  The second component keeps its sessions under string identifiers, with optional
  counters, and asks the backend for its content. The responses are untyped in the
  source; the records below hold the fields \<^verbatim>\<open>createNewSession\<close> reads, \<open>None\<close> for a
  field that is missing. \<^verbatim>\<open>a || b\<close> takes \<open>b\<close> when \<open>a\<close> is missing, an empty string or
  zero; an array is never replaced, even when it is empty. The record of the component
  holds the cells that \<^verbatim>\<open>createNewSession\<close> reads or writes.
\<close>

record LessonContent =
  lc_title :: string
  lc_full_content :: "string option"
  lc_introduction :: string
  lc_key_concepts :: "string list"
  lc_examples :: "(string \<times> string) list list"

record LearningSessionData_simple =
  s_id :: string
  s_session_type :: string
  s_subject_area :: string
  s_topic :: string
  s_status :: string
  s_content :: "LessonContent option"
  s_duration_estimate :: "int option"
  s_questions_attempted :: "int option"
  s_questions_correct :: "int option"
  s_accuracy_rate :: "rat option"
  s_duration_minutes :: "int option"
  s_started_at :: "string option"
  s_difficulty_level :: rat
  s_created_at :: string

record raw_content_object =
  rc_full_content :: "string option"
  rc_introduction :: "string option"
  rc_key_concepts :: "string list option"
  rc_examples :: "(string \<times> string) list list option"

datatype raw_content = ContentString string | ContentObject raw_content_object

record raw_lesson =
  rl_id :: "string option"
  rl_title :: "string option"
  rl_content :: "raw_content option"
  rl_key_concepts :: "string list option"
  rl_estimated_duration :: "int option"

record lesson_response =
  lr_lesson :: "raw_lesson option"

record raw_question =
  rq_question :: string
  rq_options :: "string list option"
  rq_option_a :: string
  rq_option_b :: string
  rq_option_c :: string
  rq_option_d :: string
  rq_correct_answer :: string
  rq_explanation :: "string option"
  rq_difficulty_level :: "rat option"

record raw_quiz =
  quiz_questions :: "raw_question list option"

record quiz_response =
  qr_quiz :: "raw_quiz option"
  qr_questions :: "raw_question list option"

record component_simple =
  sessions_s :: "LearningSessionData_simple list"
  activeSession_s :: "LearningSessionData_simple option"
  currentQuestion_s :: "Question option"
  currentQuestions_s :: "Question list"
  questionStartTime_s :: "nat option"
  loading_s :: bool
  error_message_s :: string
  successMessage_s :: string
  createDialogOpen_s :: bool
  newSessionData_s :: new_session_data
  console_s :: "string list"
  browser_s :: "browser_effect list"

definition or_string :: "string option \<Rightarrow> string \<Rightarrow> string" where
  "or_string a b = (case a of None \<Rightarrow> b | Some s \<Rightarrow> if s = [] then b else s)"

definition or_number :: "'a::zero option \<Rightarrow> 'a \<Rightarrow> 'a" where
  "or_number a b = (case a of None \<Rightarrow> b | Some n \<Rightarrow> if n = 0 then b else n)"

definition or_array :: "'a list option \<Rightarrow> 'a list \<Rightarrow> 'a list" where
  "or_array a b = (case a of None \<Rightarrow> b | Some xs \<Rightarrow> xs)"

definition welcome_text :: "string \<Rightarrow> string" where
  "welcome_text t = ''Welcome to this comprehensive lesson on '' @ t @ ''.''"

definition default_key_concepts :: "string list" where
  "default_key_concepts =
     [''Foundation principles'', ''Practical applications'', ''Problem-solving strategies'']"

definition default_examples :: "string \<Rightarrow> (string \<times> string) list list" where
  "default_examples t =
     [[(''Basic Application'', ''How '' @ t @ '' applies in real-world scenarios'')],
      [(''Advanced Implementation'', ''Complex applications of '' @ t)]]"

text \<open>The \<^verbatim>\<open>content\<close> field of a lesson session (lines 623 to 649).\<close>

definition lesson_content :: "new_session_data \<Rightarrow> raw_lesson option \<Rightarrow> LessonContent" where
  "lesson_content nsd l =
     (let fallback =
            \<lparr>lc_title = nsd_topic nsd @ '' - '' @ nsd_subject_area nsd,
             lc_full_content = Some (welcome_text (nsd_topic nsd)),
             lc_introduction = welcome_text (nsd_topic nsd),
             lc_key_concepts = default_key_concepts,
             lc_examples = default_examples (nsd_topic nsd)\<rparr>
      in case l of
           None \<Rightarrow> fallback
         | Some les \<Rightarrow>
             (case rl_content les of
                None \<Rightarrow> fallback
              | Some (ContentString c) \<Rightarrow>
                  if c = [] then fallback
                  else
                    \<lparr>lc_title =
                       or_string (rl_title les) (nsd_topic nsd @ '' - '' @ nsd_subject_area nsd),
                     lc_full_content = Some c,
                     lc_introduction = take 300 c @ ''...'',
                     lc_key_concepts = or_array (rl_key_concepts les) default_key_concepts,
                     lc_examples = default_examples (nsd_topic nsd)\<rparr>
              | Some (ContentObject c) \<Rightarrow>
                  \<lparr>lc_title =
                     or_string (rl_title les) (nsd_topic nsd @ '' - '' @ nsd_subject_area nsd),
                   lc_full_content =
                     Some (or_string (rc_full_content c)
                             (or_string (rc_introduction c) (welcome_text (nsd_topic nsd)))),
                   lc_introduction = or_string (rc_introduction c) (welcome_text (nsd_topic nsd)),
                   lc_key_concepts =
                     or_array (rl_key_concepts les)
                       (or_array (rc_key_concepts c) default_key_concepts),
                   lc_examples =
                     or_array (rc_examples c) (default_examples (nsd_topic nsd))\<rparr>))"

text \<open>
  The conversion of a question of the response, \<^verbatim>\<open>questionsData.map((q, index) => ...)\<close>
  (lines 679 to 686).
\<close>

definition fromRaw :: "nat \<Rightarrow> raw_question \<Rightarrow> Question" where
  "fromRaw index q =
     \<lparr>q_id = ''q_'' @ show_nat index,
      q_question = Some (rq_question q),
      q_options =
        or_array (rq_options q) [rq_option_a q, rq_option_b q, rq_option_c q, rq_option_d q],
      q_correct_answer = rq_correct_answer q,
      q_explanation = or_string (rq_explanation q) ''No explanation available.'',
      q_difficulty = or_number (rq_difficulty_level q) (1 / 2)\<rparr>"

definition questionsData_of :: "quiz_response \<Rightarrow> raw_question list" where
  "questionsData_of quizData =
     (case (case qr_quiz quizData of None \<Rightarrow> None | Some qz \<Rightarrow> quiz_questions qz) of
        Some qs \<Rightarrow> qs
      | None \<Rightarrow> or_array (qr_questions quizData) [])"

text \<open>
  What the \<^verbatim>\<open>try\<close> block of \<^verbatim>\<open>createNewSession\<close> (lines 601 to 737) computes from the
  cells: the cells after its setters, or the error that leaves it. \<open>lessonGenerated\<close>
  is the outcome of \<^verbatim>\<open>lessonAPI.generateLesson\<close>, \<open>quizGenerated\<close> that of
  \<^verbatim>\<open>quizAPI.generateQuiz\<close> (a response without data is a rejection: reading a field of
  it throws), \<open>created\<close> that of \<^verbatim>\<open>learningAPI.createSession\<close> with the identifier it
  returned.
\<close>

definition createNewSession_try ::
  "env \<Rightarrow> error + lesson_response \<Rightarrow> error + quiz_response \<Rightarrow> error + string option
     \<Rightarrow> component_simple \<Rightarrow> error + component_simple" where
  "createNewSession_try e lessonGenerated quizGenerated created st =
     (let nsd = newSessionData_s st;
          finish = (\<lambda>newSession st'.
            st'\<lparr>sessions_s := addSession newSession (sessions_s st'),
                activeSession_s := Some newSession,
                createDialogOpen_s := False,
                newSessionData_s :=
                  \<lparr>nsd_subject_area = [], nsd_topic = [], nsd_session_type = ''practice''\<rparr>\<rparr>)
      in if nsd_session_type nsd = ''lesson'' then
           (case lessonGenerated of
              Inl err \<Rightarrow> Inl err
            | Inr lessonData \<Rightarrow>
                (let newSession =
                       \<lparr>s_id =
                          or_string (case lr_lesson lessonData of None \<Rightarrow> None | Some l \<Rightarrow> rl_id l)
                            (show_nat (session_now e)),
                        s_session_type = ''lesson'',
                        s_subject_area = nsd_subject_area nsd,
                        s_topic = nsd_topic nsd,
                        s_status = ''active'',
                        s_content = Some (lesson_content nsd (lr_lesson lessonData)),
                        s_duration_estimate =
                          Some (or_number
                                  (case lr_lesson lessonData of
                                     None \<Rightarrow> None
                                   | Some l \<Rightarrow> rl_estimated_duration l) 20),
                        s_questions_attempted = Some 0,
                        s_questions_correct = Some 0,
                        s_accuracy_rate = Some 0,
                        s_duration_minutes = Some 0,
                        s_started_at = Some (session_iso e),
                        s_difficulty_level = 1 / 2,
                        s_created_at = session_iso e\<rparr>
                 in Inr (finish newSession
                      (st\<lparr>successMessage_s :=
                            ''AI-powered lesson created for '' @ nsd_topic nsd @ ''!''\<rparr>))))
         else
           (case quizGenerated of
              Inl err \<Rightarrow> Inl err
            | Inr quizData \<Rightarrow>
                (let questionsData = questionsData_of quizData
                 in if length questionsData = 0 then Inl (Error ''No questions generated'')
                    else
                      (let questions =
                             map (\<lambda>(index, q). fromRaw index q)
                               (zip [0 ..< length questionsData] questionsData);
                           local_id = show_nat (session_now e);
                           sessionId =
                             (case created of
                                Inl err \<Rightarrow> local_id
                              | Inr i \<Rightarrow> or_string i local_id);
                           st1 =
                             (case created of
                                Inl err \<Rightarrow>
                                  st\<lparr>browser_s := browser_s st @ intercept err,
                                     console_s := console_s st @
                                       [''Learning session creation failed, continuing with quiz:'']\<rparr>
                              | Inr i \<Rightarrow> st);
                           newSession =
                             \<lparr>s_id = sessionId,
                              s_session_type = nsd_session_type nsd,
                              s_subject_area = nsd_subject_area nsd,
                              s_topic = nsd_topic nsd,
                              s_status = ''active'',
                              s_content = None,
                              s_duration_estimate = None,
                              s_questions_attempted = Some 0,
                              s_questions_correct = Some 0,
                              s_accuracy_rate = Some 0,
                              s_duration_minutes = Some 0,
                              s_started_at = Some (session_iso e),
                              s_difficulty_level = 1 / 2,
                              s_created_at = session_iso e\<rparr>;
                           st2 = st1\<lparr>currentQuestions_s := questions\<rparr>;
                           st3 = (if 0 < length questions
                                  then st2\<lparr>currentQuestion_s := Some (questions ! 0),
                                           questionStartTime_s := Some (session_now e)\<rparr>
                                  else st2)
                       in Inr (finish newSession
                            (st3\<lparr>successMessage_s :=
                                   ''AI-powered quiz created for '' @ nsd_topic nsd @ ''!''\<rparr>))))))"

text \<open>
  \<^verbatim>\<open>createNewSession\<close> with its \<^verbatim>\<open>catch\<close> and \<^verbatim>\<open>finally\<close>: an error of the block is
  reported in the error cell, and the cells the block had set before it are kept (it
  sets none before its last awaited call). The error that leaves the block is the
  rejection of its generation call, which has passed the response interceptor, or the
  block's own \<^verbatim>\<open>Error\<close>, which the interceptor does not see.
\<close>

definition createNewSession_simple ::
  "env \<Rightarrow> error + lesson_response \<Rightarrow> error + quiz_response \<Rightarrow> error + string option
     \<Rightarrow> component_simple \<Rightarrow> component_simple" where
  "createNewSession_simple e lessonGenerated quizGenerated created st =
     (case createNewSession_try e lessonGenerated quizGenerated created st of
        Inl err \<Rightarrow>
          st\<lparr>browser_s := browser_s st @ intercept err,
             console_s := console_s st @ [''Error creating session:''],
             error_message_s := ''Failed to create AI-powered learning session'',
             loading_s := False\<rparr>
      | Inr st' \<Rightarrow> st'\<lparr>loading_s := False\<rparr>)"

section \<open>Concrete sessions\<close>

text \<open>
  A quiz on Algebra, created from the dialog at a fixed clock reading with every random
  draw \<open>0\<close> (so every generated question names \<^verbatim>\<open>'A'\<close> as its correct answer), and a later
  environment for the quiz generated when the session is resumed.
\<close>

definition demo_env :: env where
  "demo_env =
     \<lparr>gen_now = (\<lambda>i. 1700000000000), gen_random = (\<lambda>i. 0),
      session_now = 1700000000001, session_iso = ''2023-11-14T22:13:20.001Z''\<rparr>"

definition later_env :: env where
  "later_env =
     \<lparr>gen_now = (\<lambda>i. 1700000060000), gen_random = (\<lambda>i. 3 / 4),
      session_now = 1700000060001, session_iso = ''2023-11-14T22:14:20.001Z''\<rparr>"

definition demo_request :: QuizGenerationRequest where
  "demo_request =
     \<lparr>req_subject = ''Mathematics'', req_topic = ''Algebra'',
      req_difficulty = 1 / 2, numQuestions = 4\<rparr>"

definition demo_form :: component where
  "demo_form =
     initial_component\<lparr>newSessionData :=
       \<lparr>nsd_subject_area = ''Mathematics'', nsd_topic = ''Algebra'',
        nsd_session_type = ''quiz''\<rparr>\<rparr>"

definition demo_created :: component where
  "demo_created = createNewSession demo_env (Inr ()) demo_form"

text \<open>
  The dialog filled in with \<^verbatim>\<open>constructor\<close> as its subject area (the field is free text),
  and the request \<^verbatim>\<open>createNewSession\<close> builds from it.
\<close>

definition constructor_request :: QuizGenerationRequest where
  "constructor_request =
     \<lparr>req_subject = ''constructor'', req_topic = ''Algebra'',
      req_difficulty = 1 / 2, numQuestions = 4\<rparr>"

definition constructor_form :: component where
  "constructor_form =
     initial_component\<lparr>newSessionData :=
       \<lparr>nsd_subject_area = ''constructor'', nsd_topic = ''Algebra'',
        nsd_session_type = ''quiz''\<rparr>\<rparr>"

text \<open>The session of \<open>demo_created\<close> as the list holds it after two answers and a pause.\<close>

definition demo_paused :: LearningSessionData where
  "demo_paused =
     \<lparr>session_id = 1700000000001, session_type = ''quiz'', subject_area = ''Mathematics'',
      topic = ''Algebra'', status = ''paused'', questions_attempted = 2,
      questions_correct = 0, accuracy_rate = 0, duration_minutes = 0,
      started_at = ''2023-11-14T22:13:20.001Z''\<rparr>"

text \<open>
  Answering the first question by its option A, and the second by its option B; then
  pausing and resuming; then three more answers.
\<close>

definition first_answer :: "event list" where
  "first_answer = [SelectAnswer ''Pythagorean theorem'', SubmitAnswer (Inr ())]"

definition two_answers :: "event list" where
  "two_answers =
     [SelectAnswer ''Pythagorean theorem'', SubmitAnswer (Inr ()), NextQuestion,
      SelectAnswer ''x = 10'', SubmitAnswer (Inr ()), NextQuestion]"

definition pause_resume :: "event list" where
  "pause_resume = two_answers @ [PauseSession, StartSession later_env demo_paused]"

definition resumed_answers :: "event list" where
  "resumed_answers =
     pause_resume @
     [SelectAnswer ''Pythagorean theorem'', SubmitAnswer (Inr ()), NextQuestion,
      SelectAnswer ''x = 10'', SubmitAnswer (Inr ()), NextQuestion,
      SelectAnswer ''Chain rule'', SubmitAnswer (Inr ())]"

definition four_answers :: "event list" where
  "four_answers =
     two_answers @
     [SelectAnswer ''Chain rule'', SubmitAnswer (Inr ()), NextQuestion,
      SelectAnswer ''x = 20'', SubmitAnswer (Inr ())]"

text \<open>
  The questions \<^verbatim>\<open>getQuestionsForTopic\<close> returns for a topic outside artificial
  intelligence (lines 138 to 155), and a practice session that awaits the answer to the
  first of them.
\<close>

definition default_questions :: "Question list" where
  "default_questions =
     [\<lparr>q_id = ''1'', q_question = Some ''What is the capital of France?'',
       q_options = [''London'', ''Berlin'', ''Paris'', ''Madrid''],
       q_correct_answer = ''Paris'',
       q_explanation = ''Paris is the capital and most populous city of France.'',
       q_difficulty = 3 / 10\<rparr>,
      \<lparr>q_id = ''2'', q_question = Some ''What is 2 + 2?'',
       q_options = [''3'', ''4'', ''5'', ''6''],
       q_correct_answer = ''4'',
       q_explanation = ''Two plus two equals four in basic arithmetic.'',
       q_difficulty = 1 / 10\<rparr>]"

definition practice_session :: LearningSessionData where
  "practice_session =
     \<lparr>session_id = 1, session_type = ''practice'', subject_area = ''General Knowledge'',
      topic = ''Mixed Topics'', status = ''active'', questions_attempted = 0,
      questions_correct = 0, accuracy_rate = 0, duration_minutes = 0,
      started_at = ''2023-11-14T22:13:20.001Z''\<rparr>"

definition paris_awaiting :: component where
  "paris_awaiting =
     initial_component\<lparr>sessions := [practice_session],
       activeSession := Some practice_session,
       currentQuestions := default_questions,
       currentQuestion := Some (default_questions ! 0)\<rparr>"

text \<open>
  The second component with one session of the backend's history in its list and the
  dialog filled in for a quiz; a response with two questions, and one with none.
\<close>

definition history_session :: LearningSessionData_simple where
  "history_session =
     \<lparr>s_id = ''7'', s_session_type = ''practice'', s_subject_area = ''General'',
      s_topic = ''Mixed Topics'', s_status = ''active'', s_content = None,
      s_duration_estimate = None, s_questions_attempted = Some 0,
      s_questions_correct = Some 0, s_accuracy_rate = Some 0, s_duration_minutes = None,
      s_started_at = None, s_difficulty_level = 1 / 2,
      s_created_at = ''2023-11-14T22:00:00.000Z''\<rparr>"

definition simple_form :: component_simple where
  "simple_form =
     \<lparr>sessions_s = [history_session], activeSession_s = None, currentQuestion_s = None,
      currentQuestions_s = [], questionStartTime_s = None, loading_s = False,
      error_message_s = [], successMessage_s = [], createDialogOpen_s = True,
      newSessionData_s =
        \<lparr>nsd_subject_area = ''Mathematics'', nsd_topic = ''Algebra'',
         nsd_session_type = ''quiz''\<rparr>,
      console_s = [], browser_s = []\<rparr>"

definition two_questions :: quiz_response where
  "two_questions =
     \<lparr>qr_quiz = Some \<lparr>quiz_questions = Some
        [\<lparr>rq_question = ''What is 2 + 2?'', rq_options = Some [''3'', ''4'', ''5'', ''6''],
          rq_option_a = [], rq_option_b = [], rq_option_c = [], rq_option_d = [],
          rq_correct_answer = ''4'', rq_explanation = None, rq_difficulty_level = None\<rparr>,
         \<lparr>rq_question = ''What is 3 * 3?'', rq_options = Some [''6'', ''9'', ''12'', ''33''],
          rq_option_a = [], rq_option_b = [], rq_option_c = [], rq_option_d = [],
          rq_correct_answer = ''9'', rq_explanation = None, rq_difficulty_level = None\<rparr>]\<rparr>,
      qr_questions = None\<rparr>"

definition no_questions :: quiz_response where
  "no_questions = \<lparr>qr_quiz = Some \<lparr>quiz_questions = Some []\<rparr>, qr_questions = None\<rparr>"

section \<open>The invariant of a quiz in progress\<close>

text \<open>
  While a session is active, the current question is one of the list, the identifiers
  of the list are distinct, and the session has not been asked more questions than the
  current question's index, plus one while its result is shown.
\<close>

definition progress_inv :: "component \<Rightarrow> bool" where
  "progress_inv st =
     (case activeSession st of
        None \<Rightarrow> True
      | Some act \<Rightarrow>
          distinct (map q_id (currentQuestions st))
          \<and> (\<exists>i. i < length (currentQuestions st)
                \<and> currentQuestion st = Some (currentQuestions st ! i)
                \<and> 0 \<le> questions_correct act
                \<and> questions_correct act \<le> questions_attempted act
                \<and> questions_attempted act \<le> int i + (if showResults st then 1 else 0)))"

text \<open>
  The session of the quiz in progress is the first of the list, its counters are within
  the number \<open>n\<close> of questions of the quiz, and while it is active the list of questions
  has that length.
\<close>

definition listed_inv :: "nat \<Rightarrow> component \<Rightarrow> bool" where
  "listed_inv n st =
     (\<exists>s rest. sessions st = s # rest
        \<and> 0 \<le> questions_correct s
        \<and> questions_correct s \<le> questions_attempted s
        \<and> questions_attempted s \<le> int n
        \<and> (case activeSession st of
             None \<Rightarrow> True
           | Some act \<Rightarrow> act = s \<and> length (currentQuestions st) = n))"

text \<open>An option text that is none of the letters the generator draws.\<close>

definition no_letter :: "string \<Rightarrow> bool" where
  "no_letter v = (v \<noteq> ''A'' \<and> v \<noteq> ''B'' \<and> v \<noteq> ''C'' \<and> v \<noteq> ''D'')"

section \<open>Lemmas\<close>

subsection \<open>The generator's loop and its identifiers\<close>

lemma generateQuiz_loop_eq:
  "generateQuiz_loop e request i questions =
     questions @ map (new_question e request) [i ..< nat (numQuestions request)]"
proof (induction e request i questions rule: generateQuiz_loop.induct)
  case (1 e request i questions)
  show ?case
  proof (cases "int i < numQuestions request")
    case True
    then have "i < nat (numQuestions request)" by simp
    then have "[i ..< nat (numQuestions request)] = i # [i + 1 ..< nat (numQuestions request)]"
      by (simp add: upt_conv_Cons)
    with True 1 show ?thesis by (subst generateQuiz_loop.simps) simp
  next
    case False
    then have "[i ..< nat (numQuestions request)] = []" by simp
    with False show ?thesis by (subst generateQuiz_loop.simps) simp
  qed
qed

lemma generateQuiz_eq:
  "generateQuiz e request = map (new_question e request) [0 ..< nat (numQuestions request)]"
  by (simp add: generateQuiz_def generateQuiz_catch_def generateQuiz_try_def generateQuiz_loop_eq)

lemma digit_char_digit: "d < 10 \<Longrightarrow> digit_char d \<in> set ''0123456789''"
  unfolding digit_char_def by (rule nth_mem) simp

lemma digit_char_inj: "a < 10 \<Longrightarrow> b < 10 \<Longrightarrow> digit_char a = digit_char b \<Longrightarrow> a = b"
proof -
  assume a: "a < 10" and b: "b < 10" and eq: "digit_char a = digit_char b"
  have d: "distinct ''0123456789''" by simp
  have l: "length ''0123456789'' = 10" by simp
  from eq have "''0123456789'' ! a = ''0123456789'' ! b" by (simp only: digit_char_def)
  with d a b l show "a = b" by (metis nth_eq_iff_index_eq)
qed

lemma show_nat_digits: "set (show_nat n) \<subseteq> set ''0123456789''"
proof (induction n rule: show_nat.induct)
  case (1 n)
  show ?case
  proof (cases "n < 10")
    case True
    then show ?thesis using digit_char_digit [of n] by (subst show_nat.simps) simp
  next
    case False
    have "n mod 10 < 10" by simp
    from digit_char_digit [OF this] 1 False show ?thesis by (subst show_nat.simps) simp
  qed
qed

lemma show_nat_nonempty: "show_nat n \<noteq> []"
  by (subst show_nat.simps) simp

lemma show_nat_inj: "show_nat n = show_nat m \<Longrightarrow> n = m"
proof (induction n arbitrary: m rule: show_nat.induct)
  case (1 n)
  show ?case
  proof (cases "n < 10")
    case True
    note n = this
    show ?thesis
    proof (cases "m < 10")
      case True
      with n 1(2) show ?thesis
        by (subst (asm) show_nat.simps, subst (asm) (2) show_nat.simps) (simp add: digit_char_inj)
    next
      case False
      have "length (show_nat m) \<ge> 2" using False show_nat_nonempty [of "m div 10"]
        by (subst show_nat.simps) (cases "show_nat (m div 10)"; simp)
      moreover have "length (show_nat n) = 1" using n by (subst show_nat.simps) simp
      ultimately show ?thesis using 1(2) by simp
    qed
  next
    case False
    note n = this
    show ?thesis
    proof (cases "m < 10")
      case True
      have "length (show_nat n) \<ge> 2" using n show_nat_nonempty [of "n div 10"]
        by (subst show_nat.simps) (cases "show_nat (n div 10)"; simp)
      moreover have "length (show_nat m) = 1" using True by (subst show_nat.simps) simp
      ultimately show ?thesis using 1(2) by simp
    next
      case False
      have en: "show_nat n = show_nat (n div 10) @ [digit_char (n mod 10)]"
        using n by (subst show_nat.simps) simp
      have em: "show_nat m = show_nat (m div 10) @ [digit_char (m mod 10)]"
        using False by (subst show_nat.simps) simp
      from 1(2) en em have a: "show_nat (n div 10) = show_nat (m div 10)"
        and b: "digit_char (n mod 10) = digit_char (m mod 10)" by simp_all
      from 1(1) [OF n a] have "n div 10 = m div 10" .
      moreover from b have "n mod 10 = m mod 10" by (intro digit_char_inj) simp_all
      ultimately show ?thesis by (metis div_mult_mod_eq)
    qed
  qed
qed

lemma suffix_after_separator:
  assumes "xs @ c # ys = xs' @ c # ys'" and "c \<notin> set ys" and "c \<notin> set ys'"
  shows "ys = ys'"
proof -
  have "takeWhile (\<lambda>x. x \<noteq> c) (rev (xs @ c # ys)) = rev ys"
    using assms(2) by (auto simp add: takeWhile_tail)
  moreover have "takeWhile (\<lambda>x. x \<noteq> c) (rev (xs' @ c # ys')) = rev ys'"
    using assms(3) by (auto simp add: takeWhile_tail)
  ultimately have "rev ys = rev ys'" using assms(1) by simp
  then show ?thesis by simp
qed

lemma underscore_not_digit: "CHR ''_'' \<notin> set (show_nat n)"
  using show_nat_digits [of n] by auto

lemma new_question_id_inj:
  "aq_id (new_question e request i) = aq_id (new_question e' request' j) \<Longrightarrow> i = j"
proof -
  assume "aq_id (new_question e request i) = aq_id (new_question e' request' j)"
  then have "(''q_'' @ show_nat (gen_now e i)) @ CHR ''_'' # show_nat i
           = (''q_'' @ show_nat (gen_now e' j)) @ CHR ''_'' # show_nat j"
    by (simp add: new_question_def)
  then have "show_nat i = show_nat j"
    by (rule suffix_after_separator) (rule underscore_not_digit)+
  then show "i = j" by (rule show_nat_inj)
qed

lemma generateQuiz_distinct_ids: "distinct (map aq_id (generateQuiz e request))"
proof -
  have "inj_on (\<lambda>i. aq_id (new_question e request i)) (set [0 ..< nat (numQuestions request)])"
    by (rule inj_onI) (rule new_question_id_inj)
  then show ?thesis
    by (simp add: generateQuiz_eq distinct_map comp_def inj_on_def)
qed

subsection \<open>The invariant is kept by the events of answering\<close>

lemma generateQuiz_length: "length (generateQuiz e request) = nat (numQuestions request)"
  by (simp add: generateQuiz_eq)

lemma findIndex_lower: "- 1 \<le> findIndex P xs"
  by (induction xs) (auto simp: Let_def)

lemma findIndex_nth:
  "distinct (map f xs) \<Longrightarrow> i < length xs \<Longrightarrow> findIndex (\<lambda>x. f x = f (xs ! i)) xs = int i"
proof (induction xs arbitrary: i)
  case Nil
  then show ?case by simp
next
  case (Cons x xs)
  show ?case
  proof (cases i)
    case 0
    then show ?thesis by simp
  next
    case (Suc j)
    with Cons.prems have j: "j < length xs" and d: "distinct (map f xs)" by simp_all
    from Cons.prems Suc j have "f x \<noteq> f (xs ! j)" by auto
    moreover from Cons.IH [OF d j] have "findIndex (\<lambda>x. f x = f (xs ! j)) xs = int j" .
    ultimately show ?thesis using Suc by (simp add: Let_def)
  qed
qed

lemma progress_inv_counters_ok: "progress_inv st \<Longrightarrow> counters_ok st"
  by (auto simp: progress_inv_def counters_ok_def split: option.splits if_splits)

lemma generateQuiz_not_Nil: "1 \<le> numQuestions request \<Longrightarrow> generateQuiz e request \<noteq> []"
proof -
  assume "1 \<le> numQuestions request"
  then have "0 < length (generateQuiz e request)" by (simp add: generateQuiz_length)
  then show ?thesis by simp
qed

lemma toQuestion_Inr:
  assumes "toQuestion q = Inr x"
  shows "q_id x = aq_id q" and "q_correct_answer x = aq_correct_answer q"
    and "\<exists>options. aq_options q = Some options
           \<and> q_options x = [opt_A options, opt_B options, opt_C options, opt_D options]"
  using assms by (auto simp add: toQuestion_def split: option.splits)

lemma toQuestions_Inr:
  "toQuestions qs = Inr xs \<Longrightarrow> length xs = length qs \<and> map q_id xs = map aq_id qs"
proof (induction qs arbitrary: xs)
  case Nil
  then show ?case by simp
next
  case (Cons q qs)
  from Cons.prems obtain x xs' where x: "toQuestion q = Inr x"
    and r: "toQuestions qs = Inr xs'" and e: "xs = x # xs'"
    by (auto split: sum.splits)
  from Cons.IH [OF r] toQuestion_Inr(1) [OF x] e show ?case by simp
qed

lemma toQuestions_defined:
  "list_all (\<lambda>q. aq_options q \<noteq> None) qs \<Longrightarrow> \<exists>xs. toQuestions qs = Inr xs"
  by (induction qs) (auto simp add: toQuestion_def split: option.splits)

lemma generateOptions_defined:
  "subject \<notin> set object_prototype_properties \<Longrightarrow> generateOptions subject t n \<noteq> None"
  by (simp add: generateOptions_def Let_def split: option.splits)

lemma generateQuiz_options_defined:
  assumes "req_subject request \<notin> set object_prototype_properties"
  shows "list_all (\<lambda>q. aq_options q \<noteq> None) (generateQuiz e request)"
  using generateOptions_defined [OF assms]
  by (simp add: generateQuiz_eq list_all_iff new_question_def)

lemma toQuestions_generateQuiz:
  assumes "req_subject request \<notin> set object_prototype_properties"
  shows "\<exists>questions. toQuestions (generateQuiz e request) = Inr questions
     \<and> length questions = nat (numQuestions request)
     \<and> distinct (map q_id questions)"
proof -
  from toQuestions_defined [OF generateQuiz_options_defined [OF assms]]
  obtain questions where q: "toQuestions (generateQuiz e request) = Inr questions" ..
  from toQuestions_Inr [OF q] generateQuiz_distinct_ids [of e request] q show ?thesis
    by (simp add: generateQuiz_length)
qed

lemma created_cells:
  assumes "nsd_subject_area (newSessionData st) \<notin> set object_prototype_properties"
  shows "\<exists>questions act.
       toQuestions (generateQuiz e
         \<lparr>req_subject = nsd_subject_area (newSessionData st),
          req_topic = nsd_topic (newSessionData st),
          req_difficulty = 1 / 2, numQuestions = 4\<rparr>) = Inr questions
     \<and> length questions = 4 \<and> distinct (map q_id questions)
     \<and> currentQuestions (createNewSession e (Inr u) st) = questions
     \<and> currentQuestion (createNewSession e (Inr u) st) = Some (questions ! 0)
     \<and> activeSession (createNewSession e (Inr u) st) = Some act
     \<and> sessions (createNewSession e (Inr u) st) = act # sessions st
     \<and> questions_attempted act = 0 \<and> questions_correct act = 0 \<and> accuracy_rate act = 0
     \<and> status act = ''active''
     \<and> error_message (createNewSession e (Inr u) st) = error_message st"
proof -
  let ?request = "\<lparr>req_subject = nsd_subject_area (newSessionData st),
          req_topic = nsd_topic (newSessionData st),
          req_difficulty = 1 / 2, numQuestions = 4\<rparr>"
  have "req_subject ?request \<notin> set object_prototype_properties"
    using assms by simp
  from toQuestions_generateQuiz [OF this, of e]
  obtain questions where q: "toQuestions (generateQuiz e ?request) = Inr questions"
    and l: "length questions = 4" and d: "distinct (map q_id questions)"
    by auto
  from q l d show ?thesis
    by (simp add: createNewSession_def addSession_def Let_def)
qed

lemma created_progress_inv:
  assumes "nsd_subject_area (newSessionData st) \<notin> set object_prototype_properties"
  shows "progress_inv (createNewSession e (Inr u) st)"
proof -
  from created_cells [OF assms, of e u]
  obtain questions act
    where "length questions = 4" and "distinct (map q_id questions)"
      and "currentQuestions (createNewSession e (Inr u) st) = questions"
      and "currentQuestion (createNewSession e (Inr u) st) = Some (questions ! 0)"
      and "activeSession (createNewSession e (Inr u) st) = Some act"
      and "questions_attempted act = 0" and "questions_correct act = 0"
    by blast
  then show ?thesis
    unfolding progress_inv_def by (auto intro!: exI [of _ 0])
qed

lemma select_progress_inv:
  "progress_inv st \<Longrightarrow> progress_inv (fire (SelectAnswer v) st)"
  by (cases "activeSession st") (auto simp: progress_inv_def)

lemma submit_progress_inv:
  assumes "progress_inv st" and "offered st (SubmitAnswer logged)"
  shows "progress_inv (fire (SubmitAnswer logged) st)"
proof -
  from assms(2) obtain act cq where a: "activeSession st = Some act"
    and q: "currentQuestion st = Some cq" and s: "\<not> showResults st" and n: "selectedAnswer st \<noteq> []"
    by (auto simp: session_view_def)
  from assms(1) a s obtain i where d: "distinct (map q_id (currentQuestions st))"
    and i: "i < length (currentQuestions st)" "currentQuestion st = Some (currentQuestions st ! i)"
    and c: "0 \<le> questions_correct act" "questions_correct act \<le> questions_attempted act"
      "questions_attempted act \<le> int i"
    by (auto simp: progress_inv_def)
  show ?thesis
    using a q n d i c
    by (cases logged) (auto simp: progress_inv_def handleAnswerSubmit_def Let_def intro!: exI [of _ i])
qed

lemma next_progress_inv:
  assumes "progress_inv st" and "offered st NextQuestion"
  shows "progress_inv (fire NextQuestion st)"
proof -
  from assms(2) obtain act cq where a: "activeSession st = Some act"
    and q: "currentQuestion st = Some cq" and s: "showResults st"
    by (auto simp: session_view_def)
  from assms(1) a s obtain i where d: "distinct (map q_id (currentQuestions st))"
    and i: "i < length (currentQuestions st)" "currentQuestion st = Some (currentQuestions st ! i)"
    and c: "0 \<le> questions_correct act" "questions_correct act \<le> questions_attempted act"
      "questions_attempted act \<le> int i + 1"
    by (auto simp: progress_inv_def)
  have f: "findIndex (\<lambda>q. Some (q_id q) = map_option q_id (currentQuestion st)) (currentQuestions st)
             = int i"
    using findIndex_nth [OF d i(1)] i(2) by (simp add: eq_commute)
  show ?thesis
  proof (cases "int i < int (length (currentQuestions st)) - 1")
    case True
    then have "Suc i < length (currentQuestions st)" by simp
    with True a d c f show ?thesis
      by (auto simp: progress_inv_def handleNextQuestion_def Let_def nat_add_distrib
          intro!: exI [of _ "Suc i"])
  next
    case False
    with a f i(1) show ?thesis
      by (auto simp add: progress_inv_def handleNextQuestion_def Let_def)
  qed
qed

lemma run_progress_inv:
  "progress_inv st \<Longrightarrow> list_all answering evs \<Longrightarrow> run st evs = Some st' \<Longrightarrow> progress_inv st'"
proof (induction evs arbitrary: st)
  case Nil
  then show ?case by simp
next
  case (Cons ev evs)
  from Cons.prems have o: "offered st ev" and r: "run (fire ev st) evs = Some st'"
    and a: "answering ev" "list_all answering evs"
    by (auto split: if_splits)
  have "progress_inv (fire ev st)"
  proof (cases ev)
    case (SelectAnswer v)
    with Cons.prems(1) show ?thesis by (simp only: select_progress_inv)
  next
    case (SubmitAnswer logged)
    with Cons.prems(1) o show ?thesis by (simp only: submit_progress_inv)
  next
    case NextQuestion
    with Cons.prems(1) o show ?thesis by (simp only: next_progress_inv)
  next
    case PauseSession
    with a show ?thesis by simp
  next
    case (StartSession e s)
    with a show ?thesis by simp
  qed
  from Cons.IH [OF this a(2) r] show ?case .
qed

lemma created_listed_inv:
  assumes "nsd_subject_area (newSessionData st) \<notin> set object_prototype_properties"
  shows "listed_inv 4 (createNewSession e (Inr u) st)"
proof -
  from created_cells [OF assms, of e u]
  obtain questions act
    where "length questions = 4"
      and "currentQuestions (createNewSession e (Inr u) st) = questions"
      and "activeSession (createNewSession e (Inr u) st) = Some act"
      and "sessions (createNewSession e (Inr u) st) = act # sessions st"
      and "questions_attempted act = 0" and "questions_correct act = 0"
    by blast
  then show ?thesis
    unfolding listed_inv_def by auto
qed

lemma select_listed_inv: "listed_inv n st \<Longrightarrow> listed_inv n (fire (SelectAnswer v) st)"
  by (cases "activeSession st") (auto simp add: listed_inv_def)

lemma submit_listed_inv:
  assumes "progress_inv st" and "listed_inv n st" and "offered st (SubmitAnswer logged)"
  shows "listed_inv n (fire (SubmitAnswer logged) st)"
proof -
  from assms(3) obtain act cq where a: "activeSession st = Some act"
    and q: "currentQuestion st = Some cq" and s: "\<not> showResults st" and v: "selectedAnswer st \<noteq> []"
    by (auto simp: session_view_def)
  from assms(1) a s obtain i where i: "i < length (currentQuestions st)"
    and c: "0 \<le> questions_correct act" "questions_correct act \<le> questions_attempted act"
      "questions_attempted act \<le> int i"
    by (auto simp: progress_inv_def)
  from assms(2) a obtain rest where l: "sessions st = act # rest"
    and n: "length (currentQuestions st) = n"
    by (auto simp: listed_inv_def)
  from i n c have "questions_attempted act + 1 \<le> int n" by simp
  with a q v l n c show ?thesis
    by (cases logged) (auto simp: listed_inv_def handleAnswerSubmit_def replaceSession_def Let_def)
qed

lemma next_listed_inv:
  assumes "listed_inv n st"
  shows "listed_inv n (fire NextQuestion st)"
  using assms
  by (auto simp: listed_inv_def handleNextQuestion_def Let_def split: option.splits)

lemma run_listed_inv:
  "progress_inv st \<Longrightarrow> listed_inv n st \<Longrightarrow> list_all answering evs \<Longrightarrow> run st evs = Some st'
     \<Longrightarrow> listed_inv n st'"
proof (induction evs arbitrary: st)
  case Nil
  then show ?case by simp
next
  case (Cons ev evs)
  from Cons.prems have o: "offered st ev" and r: "run (fire ev st) evs = Some st'"
    and a: "answering ev" "list_all answering evs"
    by (auto split: if_splits)
  have p: "progress_inv (fire ev st)"
    using run_progress_inv [of st "[ev]" "fire ev st"] Cons.prems(1) o a(1) by simp
  have "listed_inv n (fire ev st)"
  proof (cases ev)
    case (SelectAnswer v)
    with Cons.prems(2) show ?thesis by (simp only: select_listed_inv)
  next
    case (SubmitAnswer logged)
    with Cons.prems(1,2) o show ?thesis by (simp only: submit_listed_inv)
  next
    case NextQuestion
    with Cons.prems(2) show ?thesis by (simp only: next_listed_inv)
  next
    case PauseSession
    with a show ?thesis by simp
  next
    case (StartSession e s)
    with a show ?thesis by simp
  qed
  from Cons.IH [OF p this a(2) r] show ?case .
qed

subsection \<open>The concrete sessions, evaluated\<close>

lemma upt_0_4: "[0 ..< 4] = [0, 1, 2, 3::nat]"
  by (simp add: eval_nat_numeral)

lemma Suc_Suc_0: "Suc (Suc 0) = 2"
  by simp

lemma Suc_Suc_Suc_0: "Suc (Suc (Suc 0)) = 3"
  by simp

lemma demo_questions_eval:
  "toQuestions (generateQuiz demo_env
     \<lparr>req_subject = ''Mathematics'', req_topic = ''Algebra'',
      req_difficulty = 1 / 2, numQuestions = 4\<rparr>) = Inr
     [\<lparr>q_id = ''q_1700000000000_0'', q_question = Some ''Which formula is used for Algebra?'',
       q_options = [''Pythagorean theorem'', ''Quadratic formula'', ''Chain rule'', ''Distance formula''],
       q_correct_answer = ''A'',
       q_explanation = ''This question tests your understanding of Algebra in Mathematics.'',
       q_difficulty = 1 / 2\<rparr>,
      \<lparr>q_id = ''q_1700000000000_1'', q_question = Some ''How do you solve this Algebra equation?'',
       q_options = [''x = 5'', ''x = 10'', ''x = 15'', ''x = 20''],
       q_correct_answer = ''A'',
       q_explanation = ''This question tests your understanding of Algebra in Mathematics.'',
       q_difficulty = 1 / 2\<rparr>,
      \<lparr>q_id = ''q_1700000000000_2'', q_question = Some ''What is the result of this Algebra problem?'',
       q_options = [''Pythagorean theorem'', ''Quadratic formula'', ''Chain rule'', ''Distance formula''],
       q_correct_answer = ''A'',
       q_explanation = ''This question tests your understanding of Algebra in Mathematics.'',
       q_difficulty = 1 / 2\<rparr>,
      \<lparr>q_id = ''q_1700000000000_3'', q_question = Some ''Which formula is used for Algebra?'',
       q_options = [''x = 5'', ''x = 10'', ''x = 15'', ''x = 20''],
       q_correct_answer = ''A'',
       q_explanation = ''This question tests your understanding of Algebra in Mathematics.'',
       q_difficulty = 1 / 2\<rparr>]"
  by (simp add: demo_env_def generateQuiz_eq upt_0_4 toQuestion_def new_question_def
      show_nat.simps digit_char_def generateQuestionText_def questionTemplates_def
      generateOptions_def optionSets_def random_letter_def Suc_Suc_0 Suc_Suc_Suc_0)

lemma later_questions_eval:
  "toQuestions (generateQuiz later_env
     \<lparr>req_subject = ''Mathematics'', req_topic = ''Algebra'',
      req_difficulty = 1 / 2, numQuestions = 4\<rparr>) = Inr
     [\<lparr>q_id = ''q_1700000060000_0'', q_question = Some ''Which formula is used for Algebra?'',
       q_options = [''Pythagorean theorem'', ''Quadratic formula'', ''Chain rule'', ''Distance formula''],
       q_correct_answer = ''D'',
       q_explanation = ''This question tests your understanding of Algebra in Mathematics.'',
       q_difficulty = 1 / 2\<rparr>,
      \<lparr>q_id = ''q_1700000060000_1'', q_question = Some ''How do you solve this Algebra equation?'',
       q_options = [''x = 5'', ''x = 10'', ''x = 15'', ''x = 20''],
       q_correct_answer = ''D'',
       q_explanation = ''This question tests your understanding of Algebra in Mathematics.'',
       q_difficulty = 1 / 2\<rparr>,
      \<lparr>q_id = ''q_1700000060000_2'', q_question = Some ''What is the result of this Algebra problem?'',
       q_options = [''Pythagorean theorem'', ''Quadratic formula'', ''Chain rule'', ''Distance formula''],
       q_correct_answer = ''D'',
       q_explanation = ''This question tests your understanding of Algebra in Mathematics.'',
       q_difficulty = 1 / 2\<rparr>,
      \<lparr>q_id = ''q_1700000060000_3'', q_question = Some ''Which formula is used for Algebra?'',
       q_options = [''x = 5'', ''x = 10'', ''x = 15'', ''x = 20''],
       q_correct_answer = ''D'',
       q_explanation = ''This question tests your understanding of Algebra in Mathematics.'',
       q_difficulty = 1 / 2\<rparr>]"
  by (simp add: later_env_def generateQuiz_eq upt_0_4 toQuestion_def new_question_def
      show_nat.simps digit_char_def generateQuestionText_def questionTemplates_def
      generateOptions_def optionSets_def random_letter_def Suc_Suc_0 Suc_Suc_Suc_0)


lemma demo_env_session: "session_now demo_env = 1700000000001"
  "session_iso demo_env = ''2023-11-14T22:13:20.001Z''"
  by (simp_all add: demo_env_def)

lemmas eval_run =
  demo_created_def demo_form_def demo_paused_def demo_env_session
  demo_questions_eval later_questions_eval generateQuiz_not_Nil
  createNewSession_def handleAnswerSubmit_def handleNextQuestion_def startSession_def
  pauseSession_def session_view_def replaceSession_def addSession_def Let_def
  initial_component_def

lemma first_answer_eval:
  "map_option
     (\<lambda>st. (isCorrect st, showResults st, map_option questions_attempted (activeSession st),
        map_option questions_correct (activeSession st),
        map_option questions_attempted (activeSession (handleAnswerSubmit (Inr ()) st))))
     (run demo_created first_answer) = Some (False, True, Some 1, Some 0, Some 2)"
  by (simp add: first_answer_def eval_run)

lemma two_answers_eval:
  "map_option
     (\<lambda>st. (activeSession st, sessions st,
        findIndex (\<lambda>q. Some (q_id q) = map_option q_id (currentQuestion st)) (currentQuestions st),
        length (currentQuestions st), showResults st))
     (run demo_created two_answers)
     = Some (Some (demo_paused\<lparr>status := ''active''\<rparr>), [demo_paused\<lparr>status := ''active''\<rparr>],
             2, 4, False)"
  by (simp add: two_answers_def eval_run)

lemma pause_resume_eval:
  "map_option
     (\<lambda>st. (map_option questions_attempted (activeSession st),
        findIndex (\<lambda>q. Some (q_id q) = map_option q_id (currentQuestion st)) (currentQuestions st),
        length (currentQuestions st)))
     (run demo_created pause_resume) = Some (Some 2, 0, 4)"
  by (simp add: pause_resume_def two_answers_def eval_run)

lemma resumed_answers_eval:
  "map_option
     (\<lambda>st. (map_option questions_attempted (activeSession st), length (currentQuestions st),
        counters_ok st))
     (run demo_created resumed_answers) = Some (Some 5, 4, False)"
  by (simp add: resumed_answers_def pause_resume_def two_answers_def eval_run counters_ok_def)

lemma four_answers_eval:
  "map_option
     (\<lambda>st. (map status (sessions st), map questions_attempted (sessions st),
        activeSession st, currentQuestion st))
     (run demo_created (four_answers @ [NextQuestion])) = Some ([''active''], [4], None, None)"
  by (simp add: four_answers_def two_answers_def eval_run)

section \<open>The claims\<close>

subsection \<open>The generator always resolves with questions\<close>

lemma getFallbackQuestions_not_Nil: "getFallbackQuestions request \<noteq> []"
  by (simp add: getFallbackQuestions_def)

text \<open>
  The first half of C10 holds: for a request with \<open>numQuestions \<ge> 1\<close>, \<^verbatim>\<open>generateQuiz\<close>
  resolves with a list of \<open>numQuestions\<close> questions, the \<^verbatim>\<open>try\<close> block has no failing
  step, and a failure would be replaced by the fallback list, which is not empty either.
\<close>

lemma generateQuiz_resolves:
  assumes "1 \<le> numQuestions request"
  shows "generateQuiz e request \<noteq> []
     \<and> length (generateQuiz e request) = nat (numQuestions request)
     \<and> (\<exists>questions. generateQuiz_try e request = Inr questions)
     \<and> generateQuiz_catch request (Inl err) = getFallbackQuestions request
     \<and> getFallbackQuestions request \<noteq> []"
  using generateQuiz_not_Nil [OF assms] generateQuiz_length getFallbackQuestions_not_Nil
  by (simp add: generateQuiz_try_def generateQuiz_catch_def)

text \<open>
  A subject that names a property every object inherits finds that property in both
  tables: the question has neither a text nor options, and the conversion of
  \<^verbatim>\<open>createNewSession\<close> and \<^verbatim>\<open>startSession\<close> throws at \<^verbatim>\<open>q.options.A\<close>.
\<close>

lemma inherited_subject_undefined:
  assumes "subject \<in> set object_prototype_properties"
  shows "generateQuestionText subject t n = None" and "generateOptions subject t n = None"
  using assms
  by (auto simp add: generateQuestionText_def generateOptions_def questionTemplates_def
      optionSets_def object_prototype_properties_def)

lemma inherited_subject_throws:
  assumes "req_subject request \<in> set object_prototype_properties"
    and "1 \<le> numQuestions request"
  shows "toQuestions (generateQuiz e request) = Inl TypeError"
proof -
  from assms(2) have "0 < nat (numQuestions request)" by simp
  then have "[0 ..< nat (numQuestions request)] = 0 # [1 ..< nat (numQuestions request)]"
    by (simp add: upt_conv_Cons)
  then have "generateQuiz e request =
      new_question e request 0 # map (new_question e request) [1 ..< nat (numQuestions request)]"
    by (simp add: generateQuiz_eq)
  moreover have "toQuestion (new_question e request 0) = Inl TypeError"
    using inherited_subject_undefined(2) [OF assms(1)]
    by (simp add: toQuestion_def new_question_def)
  ultimately show ?thesis by simp
qed

lemma createNewSession_inherited_subject:
  assumes "nsd_subject_area (newSessionData st) \<in> set object_prototype_properties"
  shows "createNewSession e created st =
           st\<lparr>error_message := ''Failed to create AI-powered learning session'',
              loading := False\<rparr>"
proof -
  let ?request = "\<lparr>req_subject = nsd_subject_area (newSessionData st),
          req_topic = nsd_topic (newSessionData st),
          req_difficulty = 1 / 2, numQuestions = 4\<rparr>"
  have "toQuestions (generateQuiz e ?request) = Inl TypeError"
    using assms by (intro inherited_subject_throws) simp_all
  then show ?thesis by (simp add: createNewSession_def Let_def)
qed

text \<open>
  C10 fails on the code. With \<^verbatim>\<open>constructor\<close> typed as the subject area, \<^verbatim>\<open>generateQuiz\<close>
  resolves with four questions (its \<^verbatim>\<open>try\<close> block succeeds, the fallback list is not
  used), but none of them has a text or options: both tables are read at the inherited
  property \<^verbatim>\<open>constructor\<close>. \<^verbatim>\<open>createNewSession\<close> throws a \<^verbatim>\<open>TypeError\<close> while converting them,
  although the backend call would resolve: it reports the failure in the error cell and
  creates no session.
\<close>

theorem inherited_subject_fails_session_creation:
  "generateQuiz_try demo_env constructor_request = Inr (generateQuiz demo_env constructor_request)
   \<and> map aq_id (generateQuiz demo_env constructor_request)
       = [''q_1700000000000_0'', ''q_1700000000000_1'', ''q_1700000000000_2'',
          ''q_1700000000000_3'']
   \<and> map aq_question (generateQuiz demo_env constructor_request) = [None, None, None, None]
   \<and> map aq_options (generateQuiz demo_env constructor_request) = [None, None, None, None]
   \<and> toQuestions (generateQuiz demo_env constructor_request) = Inl TypeError
   \<and> error_message (createNewSession demo_env (Inr ()) constructor_form)
       = ''Failed to create AI-powered learning session''
   \<and> sessions (createNewSession demo_env (Inr ()) constructor_form) = []
   \<and> activeSession (createNewSession demo_env (Inr ()) constructor_form) = None
   \<and> currentQuestion (createNewSession demo_env (Inr ()) constructor_form) = None"
proof -
  have q: "generateQuiz demo_env constructor_request =
      map (new_question demo_env constructor_request) [0, 1, 2, 3]"
    by (simp add: generateQuiz_eq constructor_request_def upt_0_4)
  have t: "generateQuiz_try demo_env constructor_request
      = Inr (generateQuiz demo_env constructor_request)"
    by (simp add: generateQuiz_def generateQuiz_catch_def generateQuiz_try_def)
  have i: "map aq_id (generateQuiz demo_env constructor_request)
       = [''q_1700000000000_0'', ''q_1700000000000_1'', ''q_1700000000000_2'',
          ''q_1700000000000_3'']"
    unfolding q by (simp add: new_question_def demo_env_def show_nat.simps digit_char_def)
  have m: "req_subject constructor_request \<in> set object_prototype_properties"
    "nsd_subject_area (newSessionData constructor_form) \<in> set object_prototype_properties"
    by (simp_all add: constructor_request_def constructor_form_def
        object_prototype_properties_def)
  have u: "map aq_question (generateQuiz demo_env constructor_request) = [None, None, None, None]"
    "map aq_options (generateQuiz demo_env constructor_request) = [None, None, None, None]"
    unfolding q by (simp_all add: new_question_def inherited_subject_undefined [OF m(1)])
  have x: "toQuestions (generateQuiz demo_env constructor_request) = Inl TypeError"
    by (rule inherited_subject_throws [OF m(1)]) (simp add: constructor_request_def)
  have c: "createNewSession demo_env (Inr ()) constructor_form =
           constructor_form\<lparr>error_message := ''Failed to create AI-powered learning session'',
              loading := False\<rparr>"
    by (rule createNewSession_inherited_subject [OF m(2)])
  show ?thesis
    by (simp add: t i u x c) (simp add: constructor_form_def initial_component_def)
qed

subsection \<open>Submitting an answer\<close>

text \<open>
  C2. With a session active, a question loaded and a non-empty selection, submitting
  scores the answer by equality of the selected string with the question's
  \<^verbatim>\<open>correct_answer\<close>, adds one to \<open>questions_attempted\<close>, adds one to
  \<open>questions_correct\<close> exactly when the answer is correct, sets \<open>accuracy_rate\<close> to
  \<open>questions_correct / questions_attempted * 100\<close> over the new counters (the new
  denominator is positive), and shows the result of the same question.
\<close>

theorem submitAnswer_transition:
  assumes "activeSession st = Some act" and "currentQuestion st = Some cq"
    and "selected \<noteq> []" and "0 \<le> questions_attempted act"
  shows "let st' = handleAnswerSubmit logged (fire (SelectAnswer selected) st)
         in isCorrect st' = (selected = q_correct_answer cq)
          \<and> showResults st'
          \<and> currentQuestion st' = Some cq
          \<and> (\<exists>act'. activeSession st' = Some act'
                \<and> questions_attempted act' = questions_attempted act + 1
                \<and> questions_correct act' =
                    questions_correct act + (if selected = q_correct_answer cq then 1 else 0)
                \<and> 0 < questions_attempted act'
                \<and> accuracy_rate act' =
                    of_int (questions_correct act') / of_int (questions_attempted act') * 100)"
  using assms by (cases logged) (simp_all add: handleAnswerSubmit_def Let_def)

lemma paris_awaiting_cells:
  "activeSession paris_awaiting = Some practice_session"
  "currentQuestion paris_awaiting = Some (default_questions ! 0)"
  "q_correct_answer (default_questions ! 0) = ''Paris''"
  "questions_attempted practice_session = 0"
  "questions_correct practice_session = 0"
  by (simp_all add: paris_awaiting_def initial_component_def default_questions_def
      practice_session_def)

text \<open>
  C2 at the question whose correct answer is \<^verbatim>\<open>Paris\<close>: \<^verbatim>\<open>paris\<close> is scored incorrect
  (one attempted, none correct, rate 0), \<^verbatim>\<open>Paris\<close> is scored correct (rate 100).
\<close>

theorem submitAnswer_transition_witness:
  "isCorrect (handleAnswerSubmit (Inr ()) (fire (SelectAnswer ''paris'') paris_awaiting)) = False
   \<and> map_option (\<lambda>a. (questions_attempted a, questions_correct a, accuracy_rate a))
        (activeSession (handleAnswerSubmit (Inr ()) (fire (SelectAnswer ''paris'') paris_awaiting)))
      = Some (1, 0, 0)
   \<and> isCorrect (handleAnswerSubmit (Inr ()) (fire (SelectAnswer ''Paris'') paris_awaiting)) = True
   \<and> map_option (\<lambda>a. (questions_attempted a, questions_correct a, accuracy_rate a))
        (activeSession (handleAnswerSubmit (Inr ()) (fire (SelectAnswer ''Paris'') paris_awaiting)))
      = Some (1, 1, 100)"
  using
    submitAnswer_transition [of paris_awaiting practice_session "default_questions ! 0"
      "''paris''" "Inr ()"]
    submitAnswer_transition [of paris_awaiting practice_session "default_questions ! 0"
      "''Paris''" "Inr ()"]
  by (auto simp add: paris_awaiting_cells Let_def)

text \<open>
  C7 as stated fails. A \<^verbatim>\<open>logInteraction\<close> that is rejected with the status 401 has
  passed the response interceptor of \<^verbatim>\<open>api.ts\<close> (lines 26 to 35) before the \<^verbatim>\<open>catch\<close> of
  the handler: the token is removed and the window is sent to \<^verbatim>\<open>/login\<close>. The failure
  reaches the user, and the page that held the counters is left.
\<close>

theorem unauthorized_logInteraction_navigates:
  "browser (fire (SelectAnswer ''Paris'') paris_awaiting) = []
   \<and> browser
       (handleAnswerSubmit (Inl (AxiosError (Some 401)))
         (fire (SelectAnswer ''Paris'') paris_awaiting))
       = [RemoveItem ''token'', Navigate ''/login'']
   \<and> list_ex navigates
       (browser
         (handleAnswerSubmit (Inl (AxiosError (Some 401)))
           (fire (SelectAnswer ''Paris'') paris_awaiting)))"
  by (simp add: handleAnswerSubmit_def intercept_def paris_awaiting_def initial_component_def
      default_questions_def Let_def)

text \<open>
  C7 (as amended). When \<^verbatim>\<open>logInteraction\<close> is rejected after a submission with anything
  but a response of status 401, the handler ends in the cells it ends in when the call
  resolves, but for one more line on the console: nothing is removed from the storage,
  the window stays where it is, the error cell is untouched and the counters are the
  incremented ones.
\<close>

theorem logInteraction_failure_swallowed:
  assumes "activeSession st = Some act" and "currentQuestion st = Some cq"
    and "selectedAnswer st \<noteq> []" and "err \<noteq> AxiosError (Some 401)"
  shows "handleAnswerSubmit (Inl err) st =
           (handleAnswerSubmit (Inr ()) st)
             \<lparr>console := console st @ [''Error logging interaction:'']\<rparr>
     \<and> browser (handleAnswerSubmit (Inl err) st) = browser st
     \<and> error_message (handleAnswerSubmit (Inl err) st) = error_message st
     \<and> map_option questions_attempted (activeSession (handleAnswerSubmit (Inl err) st))
          = Some (questions_attempted act + 1)
     \<and> map_option questions_correct (activeSession (handleAnswerSubmit (Inl err) st))
          = Some (questions_correct act
                   + (if selectedAnswer st = q_correct_answer cq then 1 else 0))"
  using assms by (simp add: handleAnswerSubmit_def intercept_def Let_def)

text \<open>
  C7 (as amended) at a correct answer whose logging call is rejected with the status
  500: one attempted, one correct, and the window has not moved.
\<close>

theorem logInteraction_failure_swallowed_witness:
  "AxiosError (Some 500) \<noteq> AxiosError (Some 401)
   \<and> error_message
       (handleAnswerSubmit (Inl (AxiosError (Some 500)))
         (fire (SelectAnswer ''Paris'') paris_awaiting)) = []
   \<and> browser
       (handleAnswerSubmit (Inl (AxiosError (Some 500)))
         (fire (SelectAnswer ''Paris'') paris_awaiting)) = []
   \<and> map_option (\<lambda>a. (questions_attempted a, questions_correct a))
        (activeSession
          (handleAnswerSubmit (Inl (AxiosError (Some 500)))
            (fire (SelectAnswer ''Paris'') paris_awaiting)))
      = Some (1, 1)"
proof -
  let ?st = "fire (SelectAnswer ''Paris'') paris_awaiting"
  have a: "activeSession ?st = Some practice_session"
    and q: "currentQuestion ?st = Some (default_questions ! 0)"
    and s: "selectedAnswer ?st \<noteq> []"
    and e: "error_message ?st = []" "browser ?st = []"
    by (simp_all add: paris_awaiting_cells paris_awaiting_def initial_component_def)
  have n: "AxiosError (Some 500) \<noteq> AxiosError (Some 401)" by simp
  from logInteraction_failure_swallowed [OF a q s n] e n show ?thesis
    by (auto simp add: paris_awaiting_cells)
qed

subsection \<open>The counters of a session\<close>

text \<open>
  C1 (as amended). For a session created by \<^verbatim>\<open>createNewSession\<close> (the subject area
  names no inherited property, for which none is created), after every run of the
  events of answering that the view offers (choosing an option, Submit Answer, Next
  Question or Complete Session): while the session is active its counters satisfy
  \<open>0 \<le> questions_correct \<le> questions_attempted \<le> length(Questions)\<close>, and at all times,
  also once the quiz is completed, its record at the head of the list satisfies
  \<open>0 \<le> questions_correct \<le> questions_attempted \<le> 4\<close>, four being the number of
  questions generated for it.
\<close>

theorem counters_invariant:
  assumes "nsd_subject_area (newSessionData st) \<notin> set object_prototype_properties"
    and "list_all answering evs"
    and "run (createNewSession e (Inr u) st) evs = Some st'"
  shows "counters_ok st'
     \<and> (\<exists>s rest. sessions st' = s # rest
           \<and> 0 \<le> questions_correct s
           \<and> questions_correct s \<le> questions_attempted s
           \<and> questions_attempted s \<le> 4
           \<and> (activeSession st' = None \<or> activeSession st' = Some s))"
proof -
  have p: "progress_inv st'"
    using run_progress_inv [OF created_progress_inv [OF assms(1)] assms(2,3)] .
  have "listed_inv 4 st'"
    using run_listed_inv
      [OF created_progress_inv [OF assms(1)] created_listed_inv [OF assms(1)] assms(2,3)] .
  then have "\<exists>s rest. sessions st' = s # rest
           \<and> 0 \<le> questions_correct s
           \<and> questions_correct s \<le> questions_attempted s
           \<and> questions_attempted s \<le> 4
           \<and> (activeSession st' = None \<or> activeSession st' = Some s)"
    by (cases "activeSession st'") (auto simp: listed_inv_def)
  with progress_inv_counters_ok [OF p] show ?thesis by simp
qed

text \<open>C1 at the Algebra quiz after two answers: two attempted, of four questions.\<close>

theorem counters_invariant_witness:
  "nsd_subject_area (newSessionData demo_form) \<notin> set object_prototype_properties
   \<and> list_all answering two_answers
   \<and> (\<exists>st'. run (createNewSession demo_env (Inr ()) demo_form) two_answers = Some st'
          \<and> counters_ok st'
          \<and> map questions_attempted (sessions st') = [2])"
proof -
  have n: "nsd_subject_area (newSessionData demo_form) \<notin> set object_prototype_properties"
    by (simp add: demo_form_def object_prototype_properties_def)
  have a: "list_all answering two_answers"
    by (simp add: two_answers_def)
  from two_answers_eval obtain st'
    where r: "run (createNewSession demo_env (Inr ()) demo_form) two_answers = Some st'"
      and s: "sessions st' = [demo_paused\<lparr>status := ''active''\<rparr>]"
    by (auto simp add: demo_created_def)
  from counters_invariant [OF n a r] n a r s show ?thesis by (auto simp add: demo_paused_def)
qed

text \<open>
  C1 as stated fails for a resumed session: the Algebra quiz is paused after two
  answers and resumed, \<^verbatim>\<open>startSession\<close> generates four new questions and keeps the
  counters, and after three more answers (a run of choosing, submitting and advancing
  only) the session has five attempted questions against a list of four.
\<close>

theorem counters_exceed_after_resume:
  "list_all answering (drop 8 resumed_answers)
   \<and> map_option
       (\<lambda>st. (map_option questions_attempted (activeSession st), length (currentQuestions st),
          counters_ok st))
       (run demo_created resumed_answers) = Some (Some 5, 4, False)"
  using resumed_answers_eval by (simp add: resumed_answers_def pause_resume_def two_answers_def)

subsection \<open>The generated letter against the option text\<close>

text \<open>
  No option of a generated question is its \<^verbatim>\<open>correct_answer\<close>: the options are the texts
  of the option sets, the correct answer is one of the letters.
\<close>

lemma random_letter_cases:
  assumes "0 \<le> r" and "r < 1"
  shows "random_letter r \<in> {''A'', ''B'', ''C'', ''D''}"
proof -
  from assms(2) have "r * 4 < 4" by linarith
  then have "\<lfloor>r * 4\<rfloor> < 4" by linarith
  then have "nat \<lfloor>r * 4\<rfloor> < 4" by linarith
  then have "nat \<lfloor>r * 4\<rfloor> = 0 \<or> nat \<lfloor>r * 4\<rfloor> = 1 \<or> nat \<lfloor>r * 4\<rfloor> = 2 \<or> nat \<lfloor>r * 4\<rfloor> = 3"
    by arith
  then show ?thesis
    unfolding random_letter_def by (elim disjE) simp_all
qed

lemma optionSets_texts:
  assumes "optionSets subject = Some sets"
  shows "sets \<noteq> []"
    and "list_all (\<lambda>os. no_letter (opt_A os) \<and> no_letter (opt_B os)
      \<and> no_letter (opt_C os) \<and> no_letter (opt_D os)) sets"
  using assms by (auto simp add: optionSets_def no_letter_def split: if_splits)

lemma generateOptions_texts:
  assumes "generateOptions subject t n = Some os"
  shows "no_letter (opt_A os) \<and> no_letter (opt_B os)
      \<and> no_letter (opt_C os) \<and> no_letter (opt_D os)"
proof (cases "optionSets subject")
  case None
  with assms show ?thesis
    by (auto simp add: generateOptions_def no_letter_def split: if_splits)
next
  case (Some sets)
  from optionSets_texts(1) [OF Some] have "sets ! (n mod length sets) \<in> set sets" by simp
  moreover from assms Some have "os = sets ! (n mod length sets)"
    by (simp add: generateOptions_def)
  ultimately show ?thesis
    using optionSets_texts(2) [OF Some] by (simp add: list_all_iff)
qed

lemma generated_option_never_correct:
  assumes "0 \<le> gen_random e i" and "gen_random e i < 1"
    and "toQuestion (new_question e request i) = Inr q"
    and "v \<in> set (q_options q)"
  shows "v \<noteq> q_correct_answer q"
proof -
  from toQuestion_Inr(3) [OF assms(3)] obtain os
    where o: "aq_options (new_question e request i) = Some os"
      and q: "q_options q = [opt_A os, opt_B os, opt_C os, opt_D os]"
    by blast
  from o have "generateOptions (req_subject request) (req_topic request) (i + 1) = Some os"
    by (simp add: new_question_def)
  from generateOptions_texts [OF this] assms(4) q have v: "no_letter v" by auto
  have "q_correct_answer q \<in> {''A'', ''B'', ''C'', ''D''}"
    using random_letter_cases [OF assms(1,2)] toQuestion_Inr(2) [OF assms(3)]
    by (simp add: new_question_def)
  with v show ?thesis by (auto simp add: no_letter_def)
qed

text \<open>
  C3 fails on the code. The first question generated for the Algebra quiz names the
  letter \<^verbatim>\<open>A\<close> as its correct answer, and its option A reads \<^verbatim>\<open>Pythagorean theorem\<close>;
  \<^verbatim>\<open>createNewSession\<close> copies the letter unchanged. Choosing that option and submitting
  compares the option text with the letter: the answer is scored incorrect and
  \<open>questions_correct\<close> stays 0.
\<close>

theorem designated_option_scored_incorrect:
  "map_option (\<lambda>q. (q_correct_answer q, q_options q ! 0)) (currentQuestion demo_created)
     = Some (''A'', ''Pythagorean theorem'')
   \<and> map_option (\<lambda>st. (selectedAnswer st, isCorrect st, map_option questions_correct (activeSession st)))
       (run demo_created first_answer) = Some (''Pythagorean theorem'', False, Some 0)"
  by (simp add: first_answer_def eval_run)

subsection \<open>Submitting twice\<close>

text \<open>
  C4 as stated fails: \<^verbatim>\<open>handleAnswerSubmit\<close> does not read \<open>showResults\<close>. In the state
  that shows the result of the first answer (one attempted), calling the handler again
  gives two attempted.
\<close>

theorem second_submit_increments_again:
  "map_option
     (\<lambda>st. (showResults st, map_option questions_attempted (activeSession st),
        map_option questions_attempted (activeSession (handleAnswerSubmit (Inr ()) st))))
     (run demo_created first_answer) = Some (True, Some 1, Some 2)"
  using first_answer_eval by (auto simp add: map_option_case split: option.splits)

lemma submit_shows_result:
  assumes "offered st (SubmitAnswer logged)"
  shows "session_view (fire (SubmitAnswer logged) st) \<and> showResults (fire (SubmitAnswer logged) st)"
  using assms
  by (cases logged) (auto simp add: session_view_def handleAnswerSubmit_def Let_def)

lemma handleNextQuestion_sessions: "sessions (handleNextQuestion st) = sessions st"
  by (simp add: handleNextQuestion_def Let_def)

lemma handleNextQuestion_active:
  "activeSession (handleNextQuestion st) = activeSession st
   \<or> activeSession (handleNextQuestion st) = None"
  by (simp add: handleNextQuestion_def Let_def)

text \<open>
  C4 (as amended). The second submission is kept out by the view: after a submission
  the result card is shown, the only event it offers is Next Question (Submit Answer is
  not rendered), and that event leaves the list of sessions, with its counters, and the
  counters of the active session unchanged.
\<close>

theorem submit_offered_once:
  assumes "offered st (SubmitAnswer logged)"
    and "offered (fire (SubmitAnswer logged) st) ev"
  shows "ev = NextQuestion
     \<and> sessions (fire ev (fire (SubmitAnswer logged) st)) = sessions (fire (SubmitAnswer logged) st)
     \<and> (activeSession (fire ev (fire (SubmitAnswer logged) st))
           = activeSession (fire (SubmitAnswer logged) st)
         \<or> activeSession (fire ev (fire (SubmitAnswer logged) st)) = None)"
proof -
  from submit_shows_result [OF assms(1)]
  have v: "session_view (fire (SubmitAnswer logged) st)"
    and s: "showResults (fire (SubmitAnswer logged) st)" by simp_all
  from assms(2) v s have "ev = NextQuestion" by (cases ev) simp_all
  then show ?thesis
    using handleNextQuestion_sessions handleNextQuestion_active by simp
qed

text \<open>C4 (as amended) at the Algebra quiz after its first answer.\<close>

theorem submit_offered_once_witness:
  "offered (fire (SelectAnswer ''Pythagorean theorem'') demo_created) (SubmitAnswer (Inr ()))
   \<and> offered
       (fire (SubmitAnswer (Inr ())) (fire (SelectAnswer ''Pythagorean theorem'') demo_created))
       NextQuestion
   \<and> \<not> offered
       (fire (SubmitAnswer (Inr ())) (fire (SelectAnswer ''Pythagorean theorem'') demo_created))
       (SubmitAnswer (Inr ()))
   \<and> map questions_attempted
       (sessions (fire NextQuestion
         (fire (SubmitAnswer (Inr ())) (fire (SelectAnswer ''Pythagorean theorem'') demo_created))))
      = [1]"
proof -
  let ?st = "fire (SelectAnswer ''Pythagorean theorem'') demo_created"
  let ?st1 = "fire (SubmitAnswer (Inr ())) ?st"
  have o: "offered ?st (SubmitAnswer (Inr ()))"
    by (simp add: eval_run)
  have n: "offered ?st1 NextQuestion"
    by (simp add: eval_run)
  have a: "map questions_attempted (sessions ?st1) = [1]"
    by (simp add: eval_run)
  have "\<not> offered ?st1 (SubmitAnswer (Inr ()))"
    using submit_offered_once [OF o, of "SubmitAnswer (Inr ())"] by auto
  with submit_offered_once [OF o n] o n a show ?thesis by simp
qed

subsection \<open>Completing a quiz\<close>

lemma no_active_session_terminal:
  assumes "activeSession st = None"
  shows "handleAnswerSubmit logged st = st \<and> handleNextQuestion st = st"
  using assms by (simp add: handleAnswerSubmit_def handleNextQuestion_def split: option.splits)

lemma completeSession_marks_completed:
  assumes "activeSession st = Some act" and "s \<in> set (sessions (completeSession st))"
    and "session_id s = session_id act"
  shows "status s = ''completed''"
  using assms by (auto simp add: completeSession_def replaceSession_def Let_def split: if_splits)

text \<open>
  C5 fails on the code. After the four answers of the Algebra quiz, Complete Session
  (\<^verbatim>\<open>handleNextQuestion\<close> at the last question) clears the active session and the current
  question, but the session stays in the list with status \<^verbatim>\<open>active\<close> and four attempted
  questions: the status is never set to \<^verbatim>\<open>completed\<close>. From there neither handler changes
  a cell.
\<close>

theorem last_advance_leaves_status_active:
  "map_option
     (\<lambda>st. (map status (sessions st), map questions_attempted (sessions st),
        activeSession st, currentQuestion st,
        handleAnswerSubmit (Inr ()) st = st, handleNextQuestion st = st))
     (run demo_created (four_answers @ [NextQuestion]))
     = Some ([''active''], [4], None, None, True, True)"
proof -
  from four_answers_eval obtain st
    where r: "run demo_created (four_answers @ [NextQuestion]) = Some st"
      and c: "map status (sessions st) = [''active'']" "map questions_attempted (sessions st) = [4]"
        "activeSession st = None" "currentQuestion st = None"
    by auto
  from no_active_session_terminal [OF c(3)] r c show ?thesis by simp
qed

subsection \<open>Pausing and resuming\<close>

lemma pauseSession_sessions:
  assumes "activeSession st = Some act" and "session \<in> set (sessions (pauseSession st))"
    and "session_id session = session_id act"
  shows "session = act\<lparr>status := ''paused''\<rparr>"
  using assms by (auto simp add: pauseSession_def replaceSession_def Let_def split: if_splits)

lemma startSession_cells:
  assumes "subject_area session \<notin> set object_prototype_properties"
  shows "\<exists>questions.
       toQuestions (generateQuiz e
         \<lparr>req_subject = subject_area session, req_topic = topic session,
          req_difficulty = 1 / 2, numQuestions = 4\<rparr>) = Inr questions
     \<and> length questions = 4 \<and> distinct (map q_id questions)
     \<and> currentQuestions (startSession e session st) = questions
     \<and> currentQuestion (startSession e session st) = Some (questions ! 0)
     \<and> activeSession (startSession e session st) = Some session
     \<and> \<not> showResults (startSession e session st)
     \<and> selectedAnswer (startSession e session st) = []"
proof -
  let ?request = "\<lparr>req_subject = subject_area session, req_topic = topic session,
          req_difficulty = 1 / 2, numQuestions = 4\<rparr>"
  have "req_subject ?request \<notin> set object_prototype_properties"
    using assms by simp
  from toQuestions_generateQuiz [OF this, of e]
  obtain questions where q: "toQuestions (generateQuiz e ?request) = Inr questions"
    and l: "length questions = 4" and d: "distinct (map q_id questions)"
    by auto
  from l obtain x xs where c: "questions = x # xs" by (cases questions) auto
  from q l d c show ?thesis
    by (simp add: startSession_def Let_def)
qed

lemma startSession_inherited_subject:
  assumes "subject_area session \<in> set object_prototype_properties"
  shows "startSession e session st =
           st\<lparr>console := console st @ [''Error generating questions for session:''],
              error_message := ''Failed to generate quiz questions'', loading := False\<rparr>"
proof -
  let ?request = "\<lparr>req_subject = subject_area session, req_topic = topic session,
          req_difficulty = 1 / 2, numQuestions = 4\<rparr>"
  have "toQuestions (generateQuiz e ?request) = Inl TypeError"
    using assms by (intro inherited_subject_throws) simp_all
  then show ?thesis by (simp add: startSession_def Let_def)
qed

text \<open>
  C8 (as amended). Pausing an active session and resuming its record from the list keeps
  \<open>questions_attempted\<close> and \<open>questions_correct\<close>, replaces the questions by four newly
  generated ones and continues from the first of them (index 0), whatever the index was
  before. (A session whose subject area names an inherited property is not resumed: the
  conversion of its questions throws, see \<open>startSession_inherited_subject\<close>.)
\<close>

theorem resume_regenerates_quiz:
  assumes "activeSession st = Some act"
    and "session \<in> set (sessions (pauseSession st))"
    and "session_id session = session_id act"
    and "subject_area act \<notin> set object_prototype_properties"
  shows "let st' = startSession e session (pauseSession st)
         in map_option questions_attempted (activeSession st') = Some (questions_attempted act)
          \<and> map_option questions_correct (activeSession st') = Some (questions_correct act)
          \<and> toQuestions (generateQuiz e
                 \<lparr>req_subject = subject_area act, req_topic = topic act,
                  req_difficulty = 1 / 2, numQuestions = 4\<rparr>) = Inr (currentQuestions st')
          \<and> length (currentQuestions st') = 4
          \<and> currentQuestion st' = Some (currentQuestions st' ! 0)
          \<and> findIndex (\<lambda>q. Some (q_id q) = map_option q_id (currentQuestion st'))
               (currentQuestions st') = 0
          \<and> \<not> showResults st'"
proof -
  let ?st' = "startSession e session (pauseSession st)"
  from pauseSession_sessions [OF assms(1,2,3)] have s: "session = act\<lparr>status := ''paused''\<rparr>" .
  with assms(4) have "subject_area session \<notin> set object_prototype_properties" by simp
  from startSession_cells [OF this, of e "pauseSession st"]
  obtain questions
    where g: "toQuestions (generateQuiz e
         \<lparr>req_subject = subject_area session, req_topic = topic session,
          req_difficulty = 1 / 2, numQuestions = 4\<rparr>) = Inr questions"
      and l: "length questions = 4" and d: "distinct (map q_id questions)"
      and q: "currentQuestions ?st' = questions"
      and c: "currentQuestion ?st' = Some (questions ! 0)"
      and a: "activeSession ?st' = Some session"
      and r: "\<not> showResults ?st'"
    by blast
  from l have p: "0 < length questions" by simp
  have "findIndex (\<lambda>q. q_id q = q_id (questions ! 0)) questions = int 0"
    using d p by (rule findIndex_nth)
  then have f: "findIndex (\<lambda>q. Some (q_id q) = map_option q_id (currentQuestion ?st'))
      (currentQuestions ?st') = 0"
    by (simp add: c q)
  show ?thesis
    unfolding Let_def using s g l q c a r f by simp
qed

text \<open>C8 (as amended) at the Algebra quiz paused after two of its four questions.\<close>

theorem resume_regenerates_quiz_witness:
  "\<exists>st. run demo_created two_answers = Some st
     \<and> map_option questions_attempted (activeSession st) = Some 2
     \<and> length (currentQuestions st) = 4
     \<and> demo_paused \<in> set (sessions (pauseSession st))
     \<and> subject_area demo_paused \<notin> set object_prototype_properties
     \<and> (let st' = startSession later_env demo_paused (pauseSession st)
        in map_option questions_attempted (activeSession st') = Some 2
         \<and> length (currentQuestions st') = 4
         \<and> findIndex (\<lambda>q. Some (q_id q) = map_option q_id (currentQuestion st'))
              (currentQuestions st') = 0)"
proof -
  let ?act = "demo_paused\<lparr>status := ''active''\<rparr>"
  from two_answers_eval obtain st where r: "run demo_created two_answers = Some st"
    and a: "activeSession st = Some ?act" and s: "sessions st = [?act]"
    and l: "length (currentQuestions st) = 4"
    by auto
  have m: "demo_paused \<in> set (sessions (pauseSession st))"
    using a s by (simp add: pauseSession_def replaceSession_def Let_def demo_paused_def)
  have i: "session_id demo_paused = session_id ?act" by simp
  have q: "questions_attempted ?act = 2" by (simp add: demo_paused_def)
  have n: "subject_area ?act \<notin> set object_prototype_properties"
    by (simp add: demo_paused_def object_prototype_properties_def)
  from resume_regenerates_quiz [OF a m i n, of later_env] r a l m q n show ?thesis
    by (auto simp add: Let_def)
qed

text \<open>
  C8 as stated fails: the Algebra quiz, paused after two of four questions and resumed,
  keeps two attempted questions but its current question is at index 0 of the new list,
  not 2.
\<close>

theorem resume_restarts_at_first_question:
  "map_option
     (\<lambda>st. (map_option questions_attempted (activeSession st),
        findIndex (\<lambda>q. Some (q_id q) = map_option q_id (currentQuestion st)) (currentQuestions st),
        length (currentQuestions st)))
     (run demo_created pause_resume) = Some (Some 2, 0, 4)"
  using pause_resume_eval by simp

subsection \<open>Creating a session\<close>

text \<open>
  In the first component the generator does not fail; when the backend's call of its
  \<^verbatim>\<open>createNewSession\<close> is rejected, or the conversion of the questions has thrown before
  it, no session is added.
\<close>

lemma createNewSession_rejected:
  "sessions (createNewSession e (Inl err) st) = sessions st
   \<and> activeSession (createNewSession e (Inl err) st) = activeSession st
   \<and> error_message (createNewSession e (Inl err) st)
        = ''Failed to create AI-powered learning session''"
  by (simp add: createNewSession_def Let_def split: sum.splits)

text \<open>
  C6. In the second component, when the generation call is rejected (for a lesson or
  for a quiz), or resolves with no question, the \<^verbatim>\<open>try\<close> block ends in that error, the
  list of sessions, the active session and the questions are as before, and the error
  cell reports the failure.
\<close>

theorem generation_failure_creates_no_session:
  assumes "(nsd_session_type (newSessionData_s st) = ''lesson'' \<and> lessonGenerated = Inl err)
         \<or> (nsd_session_type (newSessionData_s st) \<noteq> ''lesson'' \<and> quizGenerated = Inl err)
         \<or> (nsd_session_type (newSessionData_s st) \<noteq> ''lesson''
              \<and> quizGenerated = Inr quizData \<and> questionsData_of quizData = []
              \<and> err = Error ''No questions generated'')"
  shows "createNewSession_try e lessonGenerated quizGenerated created st = Inl err
     \<and> sessions_s (createNewSession_simple e lessonGenerated quizGenerated created st)
          = sessions_s st
     \<and> activeSession_s (createNewSession_simple e lessonGenerated quizGenerated created st)
          = activeSession_s st
     \<and> currentQuestions_s (createNewSession_simple e lessonGenerated quizGenerated created st)
          = currentQuestions_s st
     \<and> error_message_s (createNewSession_simple e lessonGenerated quizGenerated created st)
          = ''Failed to create AI-powered learning session''"
proof -
  from assms have "createNewSession_try e lessonGenerated quizGenerated created st = Inl err"
    by (auto simp add: createNewSession_try_def Let_def)
  then show ?thesis by (simp add: createNewSession_simple_def)
qed

lemma simple_form_cells:
  "nsd_session_type (newSessionData_s simple_form) = ''quiz''"
  "sessions_s simple_form = [history_session]"
  "questionsData_of no_questions = []"
  by (simp_all add: simple_form_def no_questions_def questionsData_of_def)

text \<open>C6 at a quiz response without questions, and at a rejected quiz generation.\<close>

theorem generation_failure_creates_no_session_witness:
  "questionsData_of no_questions = []
   \<and> sessions_s (createNewSession_simple demo_env (Inl (AxiosError None)) (Inr no_questions)
        (Inr (Some ''8'')) simple_form) = [history_session]
   \<and> error_message_s (createNewSession_simple demo_env (Inl (AxiosError None)) (Inr no_questions)
        (Inr (Some ''8'')) simple_form) = ''Failed to create AI-powered learning session''
   \<and> sessions_s (createNewSession_simple demo_env (Inl (AxiosError None)) (Inl (AxiosError None))
        (Inr (Some ''8'')) simple_form) = [history_session]"
  using
    generation_failure_creates_no_session [of simple_form "Inl (AxiosError None)" "Error ''No questions generated''"
      "Inr no_questions" no_questions demo_env "Inr (Some ''8'')"]
    generation_failure_creates_no_session [of simple_form "Inl (AxiosError None)" "AxiosError None"
      "Inl (AxiosError None)" no_questions demo_env "Inr (Some ''8'')"]
  by (simp add: simple_form_cells)

lemma createNewSession_simple_success:
  assumes "createNewSession_try e lessonGenerated quizGenerated created st = Inr st'"
  shows "\<exists>newSession.
           sessions_s (createNewSession_simple e lessonGenerated quizGenerated created st)
             = addSession newSession (sessions_s st)
         \<and> activeSession_s (createNewSession_simple e lessonGenerated quizGenerated created st)
             = Some newSession"
  using assms
  by (auto simp add: createNewSession_simple_def createNewSession_try_def Let_def
      split: if_splits sum.splits)

text \<open>
  C9 (as amended). Both components add a created session at the head of the list, where
  it is the active session and the first one found under its identifier; neither looks
  for a session with the same identifier first. The first component creates a session
  whenever its backend call resolves and the subject area names no inherited property,
  the second whenever its \<^verbatim>\<open>try\<close> block ends without an error.
\<close>

theorem addSession_always_prepends:
  "(nsd_subject_area (newSessionData st) \<notin> set object_prototype_properties \<longrightarrow>
     (\<exists>newSession.
        sessions (createNewSession e (Inr u) st) = addSession newSession (sessions st)
      \<and> activeSession (createNewSession e (Inr u) st) = Some newSession
      \<and> find (\<lambda>s. session_id s = session_id newSession)
           (sessions (createNewSession e (Inr u) st))
          = Some newSession))
   \<and> (createNewSession_try e lessonGenerated quizGenerated created st2 = Inr st2' \<longrightarrow>
       (\<exists>newSession.
          sessions_s (createNewSession_simple e lessonGenerated quizGenerated created st2)
            = addSession newSession (sessions_s st2)
        \<and> activeSession_s (createNewSession_simple e lessonGenerated quizGenerated created st2)
            = Some newSession
        \<and> find (\<lambda>s. s_id s = s_id newSession)
             (sessions_s (createNewSession_simple e lessonGenerated quizGenerated created st2))
            = Some newSession))"
proof (intro conjI impI)
  assume "nsd_subject_area (newSessionData st) \<notin> set object_prototype_properties"
  from created_cells [OF this, of e u] obtain act
    where "activeSession (createNewSession e (Inr u) st) = Some act"
      and "sessions (createNewSession e (Inr u) st) = act # sessions st"
    by blast
  then show "\<exists>newSession.
        sessions (createNewSession e (Inr u) st) = addSession newSession (sessions st)
      \<and> activeSession (createNewSession e (Inr u) st) = Some newSession
      \<and> find (\<lambda>s. session_id s = session_id newSession)
           (sessions (createNewSession e (Inr u) st))
          = Some newSession"
    by (simp add: addSession_def)
next
  assume "createNewSession_try e lessonGenerated quizGenerated created st2 = Inr st2'"
  from createNewSession_simple_success [OF this] obtain newSession
    where "sessions_s (createNewSession_simple e lessonGenerated quizGenerated created st2)
             = addSession newSession (sessions_s st2)"
      and "activeSession_s (createNewSession_simple e lessonGenerated quizGenerated created st2)
             = Some newSession"
    by blast
  then show "\<exists>newSession.
          sessions_s (createNewSession_simple e lessonGenerated quizGenerated created st2)
            = addSession newSession (sessions_s st2)
        \<and> activeSession_s (createNewSession_simple e lessonGenerated quizGenerated created st2)
            = Some newSession
        \<and> find (\<lambda>s. s_id s = s_id newSession)
             (sessions_s (createNewSession_simple e lessonGenerated quizGenerated created st2))
            = Some newSession"
    by (auto simp add: addSession_def)
qed

text \<open>C9 (as amended) at a quiz of two questions with a new identifier.\<close>

theorem addSession_always_prepends_witness:
  "nsd_subject_area (newSessionData demo_form) \<notin> set object_prototype_properties
   \<and> map session_id (sessions (createNewSession demo_env (Inr ()) demo_form))
       = [1700000000001]
   \<and> (\<exists>st'. createNewSession_try demo_env (Inl (AxiosError None)) (Inr two_questions) (Inr (Some ''8''))
       simple_form = Inr st')
   \<and> (\<exists>newSession.
        sessions_s (createNewSession_simple demo_env (Inl (AxiosError None)) (Inr two_questions)
          (Inr (Some ''8'')) simple_form) = [newSession, history_session]
      \<and> s_id newSession = ''8'')"
proof -
  let ?st = "createNewSession_simple demo_env (Inl (AxiosError None)) (Inr two_questions)
          (Inr (Some ''8'')) simple_form"
  have "\<exists>st'. createNewSession_try demo_env (Inl (AxiosError None)) (Inr two_questions)
      (Inr (Some ''8'')) simple_form = Inr st'"
    by (simp add: createNewSession_try_def simple_form_def two_questions_def
        questionsData_of_def Let_def)
  then obtain st' where t: "createNewSession_try demo_env (Inl (AxiosError None)) (Inr two_questions)
      (Inr (Some ''8'')) simple_form = Inr st'" ..
  have i: "map_option s_id (activeSession_s ?st) = Some ''8''"
    by (simp add: createNewSession_simple_def createNewSession_try_def simple_form_def
        two_questions_def questionsData_of_def or_string_def Let_def)
  have n: "nsd_subject_area (newSessionData demo_form) \<notin> set object_prototype_properties"
    by (simp add: demo_form_def object_prototype_properties_def)
  have d: "sessions demo_form = []"
    by (simp add: demo_form_def initial_component_def)
  have j: "map_option session_id (activeSession (createNewSession demo_env (Inr ()) demo_form))
      = Some 1700000000001"
    by (simp add: eval_run)
  from addSession_always_prepends [of demo_form demo_env "()" "Inl (AxiosError None)"
      "Inr two_questions" "Inr (Some ''8'')" simple_form st'] t n
  obtain session newSession
    where "sessions (createNewSession demo_env (Inr ()) demo_form)
             = addSession session (sessions demo_form)"
      and "activeSession (createNewSession demo_env (Inr ()) demo_form) = Some session"
      and "sessions_s ?st = addSession newSession (sessions_s simple_form)"
      and "activeSession_s ?st = Some newSession"
    by blast
  with i j t n d show ?thesis
    by (auto simp add: addSession_def simple_form_cells)
qed

lemma duplicate_eval:
  "map s_id (sessions_s (createNewSession_simple demo_env (Inl (AxiosError None)) (Inr two_questions)
     (Inr (Some ''7'')) simple_form)) = [''7'', ''7'']"
  by (simp add: createNewSession_simple_def createNewSession_try_def simple_form_def
      two_questions_def questionsData_of_def or_array_def or_string_def addSession_def
      history_session_def Let_def)

text \<open>
  C9 as stated fails: with a session under the identifier \<^verbatim>\<open>7\<close> in the list, creating a
  quiz for which the backend returns the identifier \<^verbatim>\<open>7\<close> is not a no-op: the list then
  holds two sessions under that identifier.
\<close>

theorem same_id_session_is_added:
  "map s_id (sessions_s simple_form) = [''7'']
   \<and> map s_id (sessions_s (createNewSession_simple demo_env (Inl (AxiosError None)) (Inr two_questions)
        (Inr (Some ''7'')) simple_form)) = [''7'', ''7'']"
  using duplicate_eval by (simp add: simple_form_def history_session_def)

end
